theory Spec2Isabelle
  imports Main "HOL-Library.Word"
begin

text \<open>
  A model of the withdrawal client: the hexadecimal encoders and the two typed-message
  codecs (\<open>hashUtils.ts\<close>, \<open>collateral.ts\<close>, \<open>coordinator.ts\<close>), the builder of the
  Ed25519 signature-verification instruction (\<open>utils/ed25519.program.ts\<close>) and the
  withdrawal flow (\<open>withdraw.ts\<close>).  The definitions come first, the properties after
  them.
\<close>

section \<open>Data representation\<close>

text \<open>
  A \<open>Buffer\<close> / \<open>Uint8Array\<close> is a list of 8-bit words.  A web3.js \<open>PublicKey\<close> wraps an
  unsigned number below \<open>2^256\<close> (its constructor rejects longer inputs), hence a 256-bit
  word; \<open>toBuffer()\<close> yields its 32 big-endian bytes, left-padded with zeros.
  \<open>BN\<close> amounts, the nonce and the elements of a \<open>number[]\<close> salt are modelled as
  naturals (non-negative integers).
\<close>

type_synonym byte = "8 word"
type_synonym Buffer = "byte list"
type_synonym PublicKey = "256 word"

definition be_bytes :: "nat \<Rightarrow> nat \<Rightarrow> Buffer" where
  "be_bytes n v = map (\<lambda>i. word_of_nat (v div 256 ^ (n - 1 - i))) [0..<n]"

definition PublicKey_toBuffer :: "PublicKey \<Rightarrow> Buffer" where
  "PublicKey_toBuffer k = be_bytes 32 (unat k)"

text \<open>\<open>new Uint8Array(xs)\<close> for a \<open>number[]\<close>: every element is reduced modulo 256.\<close>

definition Uint8Array_from :: "nat list \<Rightarrow> Buffer" where
  "Uint8Array_from xs = map word_of_nat xs"

section \<open>Hexadecimal strings\<close>

definition hexdigit :: "nat \<Rightarrow> char" where
  "hexdigit d = ''0123456789abcdef'' ! (d mod 16)"

definition hexval :: "char \<Rightarrow> nat option" where
  "hexval c =
     (let n = (of_char c :: nat) in
      if 48 \<le> n \<and> n \<le> 57 then Some (n - 48)
      else if 97 \<le> n \<and> n \<le> 102 then Some (n - 87)
      else if 65 \<le> n \<and> n \<le> 70 then Some (n - 55)
      else None)"

text \<open>\<open>n.toString(16)\<close> for a non-negative integer: lower-case digits, no leading zero.\<close>

fun toString16 :: "nat \<Rightarrow> string" where
  "toString16 n = (if n < 16 then [hexdigit n] else toString16 (n div 16) @ [hexdigit (n mod 16)])"

declare toString16.simps [simp del]

text \<open>\<open>s.padStart(w, c)\<close>: pads on the left up to width \<open>w\<close>; a longer string is unchanged.\<close>

definition padStart :: "nat \<Rightarrow> char \<Rightarrow> string \<Rightarrow> string" where
  "padStart w c s = replicate (w - length s) c @ s"

text \<open>
  The crypto-js \<open>WordArray\<close>: the bytes held in its words and its significant length.
  \<open>Hex.parse\<close> sets \<open>sigBytes = hexStr.length / 2\<close>, a half-integer for a string of odd
  length, so the model keeps twice that number (\<open>sigBytes2\<close>).
\<close>

datatype WordArray = WordArray (wbytes: Buffer) (sigBytes2: nat)

text \<open>
  \<open>parseInt(hexStr.substr(i, 2), 16)\<close> as \<open>Hex.parse\<close> uses it, on strings of hexadecimal
  digits: the digits up to the first character that is not one; \<open>NaN\<close> contributes no
  bit under \<open>|=\<close>, that is 0.  (Signs and white space, which \<open>parseInt\<close> also accepts, are
  never produced by the encoders below.)
\<close>

definition parseHexPair :: "char \<Rightarrow> char \<Rightarrow> nat" where
  "parseHexPair a b =
     (case hexval a of None \<Rightarrow> 0
      | Some x \<Rightarrow> (case hexval b of None \<Rightarrow> x | Some y \<Rightarrow> 16 * x + y))"

fun hexPairs :: "string \<Rightarrow> Buffer" where
  "hexPairs (a # b # rest) = word_of_nat (parseHexPair a b) # hexPairs rest"
| "hexPairs [a] = [word_of_nat (case hexval a of None \<Rightarrow> 0 | Some x \<Rightarrow> x)]"
| "hexPairs [] = []"

definition Hex_parse :: "string \<Rightarrow> WordArray" where
  "Hex_parse hexStr = WordArray (hexPairs hexStr) (length hexStr)"

text \<open>\<open>Utf8.parse\<close> on a string whose characters are its UTF-8 bytes.\<close>

definition Utf8_parse :: "string \<Rightarrow> WordArray" where
  "Utf8_parse s = WordArray (map (\<lambda>c. of_char c) s) (2 * length s)"

text \<open>Two hexadecimal digits per byte: \<open>Hex.stringify\<close> and \<open>Buffer.toString('hex')\<close>.\<close>

definition byteHex :: "byte \<Rightarrow> string" where
  "byteHex b = [hexdigit (unat b div 16), hexdigit (unat b mod 16)]"

definition Hex_stringify :: "Buffer \<Rightarrow> string" where
  "Hex_stringify bs = concat (map byteHex bs)"

text \<open>
  Node's \<open>Buffer.from(s, 'hex')\<close>: decodes pairs of digits and stops at the first pair
  that is not hexadecimal; an unpaired last character is dropped.
\<close>

fun Buffer_from_hex :: "string \<Rightarrow> Buffer" where
  "Buffer_from_hex (a # b # rest) =
     (case hexval a of None \<Rightarrow> []
      | Some x \<Rightarrow> (case hexval b of None \<Rightarrow> []
          | Some y \<Rightarrow> word_of_nat (16 * x + y) # Buffer_from_hex rest))"
| "Buffer_from_hex [a] = []"
| "Buffer_from_hex [] = []"

section \<open>HashUtils\<close>

text \<open>
  The digest primitive \<open>crypto.SHA3(_, { outputLength: 256 })\<close> belongs to crypto-js and
  is a parameter \<open>K\<close> of the model: it maps a \<open>WordArray\<close> to a 256-bit value, whose
  \<open>toString()\<close> is the 64-digit hexadecimal form of its 32 bytes.
\<close>

type_synonym SHA3 = "WordArray \<Rightarrow> 256 word"

definition digest_bytes :: "256 word \<Rightarrow> Buffer" where
  "digest_bytes h = be_bytes 32 (unat h)"

definition keccak256Hex :: "SHA3 \<Rightarrow> string \<Rightarrow> string" where
  "keccak256Hex K data = Hex_stringify (digest_bytes (K (Hex_parse data)))"

definition keccak256 :: "SHA3 \<Rightarrow> string \<Rightarrow> string" where
  "keccak256 K data = Hex_stringify (digest_bytes (K (Utf8_parse data)))"

definition encodeString :: "SHA3 \<Rightarrow> string \<Rightarrow> string" where
  "encodeString K v = keccak256 K v"

definition encodeAddress :: "PublicKey \<Rightarrow> string" where
  "encodeAddress v = Hex_stringify (PublicKey_toBuffer v)"

definition encodeUInt32 :: "nat \<Rightarrow> string" where
  "encodeUInt32 v = padStart 8 (CHR ''0'') (toString16 v)"

definition encodeUInt64 :: "nat \<Rightarrow> string" where
  "encodeUInt64 v = padStart 16 (CHR ''0'') (toString16 v)"

definition encodeBytes :: "Buffer \<Rightarrow> string" where
  "encodeBytes v = concat (map (\<lambda>b. padStart 2 (CHR ''0'') (toString16 (unat b))) v)"

section \<open>Collateral and Coordinator message codecs\<close>

record WithdrawCollateral =
  amountOfAsset :: nat
  signatureExpirationTime :: nat
  coordinatorSignatureSalt :: "nat list"

definition EIP712_DOMAIN_TYPE :: string where
  "EIP712_DOMAIN_TYPE =
     ''EIP712Domain(string name,string version,uint256 chainId,address verifyingContract,bytes32 salt)''"

definition COLLATERAL_WITHDRAW_TYPE :: string where
  "COLLATERAL_WITHDRAW_TYPE =
     ''Withdraw(address user,address asset,uint256 amount,address recipient,uint256 nonce)''"

definition COORDINATOR_WITHDRAW_TYPE :: string where
  "COORDINATOR_WITHDRAW_TYPE =
     ''Withdraw(address user,address collateral,address asset,uint256 amount,address recipient,uint256 nonce,uint256 expiresAt)''"

subsection \<open>Collateral\<close>

definition Collateral_encode :: string where
  "Collateral_encode = encodeBytes [0x19, 0x01]"

definition Collateral_DOMAIN_TYPE_HASH :: "SHA3 \<Rightarrow> string" where
  "Collateral_DOMAIN_TYPE_HASH K = encodeString K EIP712_DOMAIN_TYPE"

definition Collateral_domainSeparatorEncode ::
  "SHA3 \<Rightarrow> string \<Rightarrow> string \<Rightarrow> nat \<Rightarrow> PublicKey \<Rightarrow> Buffer \<Rightarrow> string" where
  "Collateral_domainSeparatorEncode K name version chainId verifyingContract salt =
     keccak256Hex K (concat
       [Collateral_DOMAIN_TYPE_HASH K,
        encodeString K name,
        encodeString K version,
        encodeUInt64 chainId,
        encodeAddress verifyingContract,
        encodeBytes salt])"

definition Collateral_WITHDRAW_TYPE_HASH :: "SHA3 \<Rightarrow> string" where
  "Collateral_WITHDRAW_TYPE_HASH K = encodeString K COLLATERAL_WITHDRAW_TYPE"

definition Collateral_encodeWithdrawMessage ::
  "SHA3 \<Rightarrow> PublicKey \<Rightarrow> PublicKey \<Rightarrow> PublicKey \<Rightarrow> PublicKey \<Rightarrow> WithdrawCollateral \<Rightarrow> nat \<Rightarrow> string" where
  "Collateral_encodeWithdrawMessage K collateral sender receiver asset withdraw adminFundsNonce =
     (let amount = amountOfAsset withdraw in
      keccak256Hex K (concat
        [Collateral_WITHDRAW_TYPE_HASH K,
         encodeAddress sender,
         encodeAddress collateral,
         encodeAddress asset,
         encodeUInt64 amount,
         encodeAddress receiver,
         encodeUInt32 adminFundsNonce]))"

definition Collateral_getWithdrawMessage ::
  "SHA3 \<Rightarrow> PublicKey \<Rightarrow> PublicKey \<Rightarrow> PublicKey \<Rightarrow> PublicKey \<Rightarrow> WithdrawCollateral \<Rightarrow> nat list \<Rightarrow> nat \<Rightarrow> Buffer" where
  "Collateral_getWithdrawMessage K collateral sender receiver asset withdraw salt adminFundsNonce =
     (let encodedData = concat
        [Collateral_encode,
         Collateral_domainSeparatorEncode K ''Collateral'' ''2'' 900 collateral (Uint8Array_from salt),
         Collateral_encodeWithdrawMessage K collateral sender receiver asset withdraw adminFundsNonce];
        encodedDataHash = keccak256Hex K encodedData
      in Buffer_from_hex encodedDataHash)"

subsection \<open>Coordinator\<close>

definition Coordinator_encode :: string where
  "Coordinator_encode = encodeBytes [0x19, 0x01]"

definition Coordinator_DOMAIN_TYPE_HASH :: "SHA3 \<Rightarrow> string" where
  "Coordinator_DOMAIN_TYPE_HASH K = encodeString K EIP712_DOMAIN_TYPE"

definition Coordinator_domainSeparatorEncode ::
  "SHA3 \<Rightarrow> string \<Rightarrow> string \<Rightarrow> nat \<Rightarrow> PublicKey \<Rightarrow> Buffer \<Rightarrow> string" where
  "Coordinator_domainSeparatorEncode K name version chainId verifyingContract salt =
     keccak256Hex K (concat
       [Coordinator_DOMAIN_TYPE_HASH K,
        encodeString K name,
        encodeString K version,
        encodeUInt64 chainId,
        encodeAddress verifyingContract,
        encodeBytes salt])"

definition Coordinator_WITHDRAW_TYPE_HASH :: "SHA3 \<Rightarrow> string" where
  "Coordinator_WITHDRAW_TYPE_HASH K = encodeString K COORDINATOR_WITHDRAW_TYPE"

definition Coordinator_encodeWithdrawMessage ::
  "SHA3 \<Rightarrow> PublicKey \<Rightarrow> PublicKey \<Rightarrow> PublicKey \<Rightarrow> PublicKey \<Rightarrow> WithdrawCollateral \<Rightarrow> nat \<Rightarrow> string" where
  "Coordinator_encodeWithdrawMessage K collateral sender receiver asset withdrawRequest adminFundsNonce =
     (let amount = amountOfAsset withdrawRequest;
          nonce = adminFundsNonce;
          expiresAt = signatureExpirationTime withdrawRequest
      in keccak256Hex K (concat
        [Coordinator_WITHDRAW_TYPE_HASH K,
         encodeAddress sender,
         encodeAddress collateral,
         encodeAddress asset,
         encodeUInt64 amount,
         encodeAddress receiver,
         encodeUInt32 nonce,
         encodeUInt64 expiresAt]))"

definition Coordinator_getWithdrawMessage ::
  "SHA3 \<Rightarrow> PublicKey \<Rightarrow> PublicKey \<Rightarrow> PublicKey \<Rightarrow> PublicKey \<Rightarrow> PublicKey \<Rightarrow> WithdrawCollateral \<Rightarrow> nat \<Rightarrow> Buffer" where
  "Coordinator_getWithdrawMessage K collateral coordinator sender receiver asset withdraw adminFundsNonce =
     (let encodedData = concat
        [Coordinator_encode,
         Coordinator_domainSeparatorEncode K ''Coordinator'' ''2'' 900 coordinator
           (Uint8Array_from (coordinatorSignatureSalt withdraw)),
         Coordinator_encodeWithdrawMessage K collateral sender receiver asset withdraw adminFundsNonce];
        encodedDataHash = keccak256Hex K encodedData
      in Buffer_from_hex encodedDataHash)"

text \<open>
  The account address derived by \<open>PublicKey.findProgramAddressSync\<close> (web3.js) is a
  parameter \<open>pda\<close>: a function of the seeds and the program id.
\<close>

type_synonym FindProgramAddress = "Buffer list \<Rightarrow> PublicKey \<Rightarrow> PublicKey"

definition COLLATERAL_ADMIN_SIGNATURE_SEED :: Buffer where
  "COLLATERAL_ADMIN_SIGNATURE_SEED = map (\<lambda>c. of_char c) ''CollateralAdminSignatures''"

definition Collateral_generateAdminSignaturePDA ::
  "FindProgramAddress \<Rightarrow> PublicKey \<Rightarrow> Buffer \<Rightarrow> PublicKey \<Rightarrow> PublicKey" where
  "Collateral_generateAdminSignaturePDA pda collateral ident programId =
     pda [COLLATERAL_ADMIN_SIGNATURE_SEED, PublicKey_toBuffer collateral, ident] programId"

definition Collateral_generateWithdrawCollateralPDA ::
  "SHA3 \<Rightarrow> FindProgramAddress \<Rightarrow> PublicKey \<Rightarrow> PublicKey \<Rightarrow> PublicKey \<Rightarrow> PublicKey \<Rightarrow>
     WithdrawCollateral \<Rightarrow> nat \<Rightarrow> PublicKey \<Rightarrow> PublicKey" where
  "Collateral_generateWithdrawCollateralPDA K pda collateral sender receiver asset request adminFundsNonce programId =
     (let withdrawCollateralMessageEncoded =
            Collateral_encodeWithdrawMessage K collateral sender receiver asset request adminFundsNonce;
          ident = Buffer_from_hex withdrawCollateralMessageEncoded
      in Collateral_generateAdminSignaturePDA pda collateral ident programId)"

section \<open>Errors\<close>

text \<open>
  Every \<open>throw\<close> and every rejected promise of the source is a value:
  the two size errors of the instruction builder, the range error of Node's
  \<open>Buffer.writeUInt8\<close> / \<open>writeUInt16LE\<close> on a value outside the field, the missing-executors
  error of \<open>executeWithdrawal\<close>, the assertion of \<open>new BN(number)\<close> on a number of
  \<open>2^53\<close> or more, a \<open>TypeError\<close>, and the failure of a remote call with its reason.
\<close>

datatype error =
    SignatureSizeError
  | MessageSizeError
  | RangeError
  | NoExecutorsFound
  | BNAssertionError
  | TypeError
  | RpcFailure string

definition bindE :: "error + 'a \<Rightarrow> ('a \<Rightarrow> error + 'b) \<Rightarrow> error + 'b" where
  "bindE m f = (case m of Inl e \<Rightarrow> Inl e | Inr x \<Rightarrow> f x)"

section \<open>Ed25519ExtendedProgram: the signature-verification instruction\<close>

abbreviation INSTRUCTION_INDEX :: nat where "INSTRUCTION_INDEX \<equiv> 2 ^ 16 - 1"
abbreviation SIGNATURE_STRUCTURE_SIZE :: nat where "SIGNATURE_STRUCTURE_SIZE \<equiv> 14"
abbreviation PUBKEY_SIZE :: nat where "PUBKEY_SIZE \<equiv> 32"
abbreviation SIGNATURE_SIZE :: nat where "SIGNATURE_SIZE \<equiv> 64"
abbreviation MESSAGE_SIZE :: nat where "MESSAGE_SIZE \<equiv> 32"
abbreviation SIGNATURE_DATA_SIZE :: nat where
  "SIGNATURE_DATA_SIZE \<equiv> PUBKEY_SIZE + SIGNATURE_SIZE + MESSAGE_SIZE"
abbreviation SIGNATURE_DATA_PLUS_STRUCTURE_SIZE :: nat where
  "SIGNATURE_DATA_PLUS_STRUCTURE_SIZE \<equiv> SIGNATURE_STRUCTURE_SIZE + SIGNATURE_DATA_SIZE"

subsection \<open>Node Buffer operations\<close>

definition Buffer_alloc :: "nat \<Rightarrow> Buffer" where
  "Buffer_alloc n = replicate n 0"

definition writeUInt8 :: "nat \<Rightarrow> nat \<Rightarrow> Buffer \<Rightarrow> error + Buffer" where
  "writeUInt8 v off buf =
     (if v > 255 then Inl RangeError
      else if off + 1 > length buf then Inl RangeError
      else Inr (buf[off := word_of_nat v]))"

definition writeUInt16LE :: "nat \<Rightarrow> nat \<Rightarrow> Buffer \<Rightarrow> error + Buffer" where
  "writeUInt16LE v off buf =
     (if v > 65535 then Inl RangeError
      else if off + 2 > length buf then Inl RangeError
      else Inr (buf[off := word_of_nat (v mod 256), off + 1 := word_of_nat (v div 256)]))"

definition readUInt16LE :: "Buffer \<Rightarrow> nat \<Rightarrow> nat" where
  "readUInt16LE buf off = unat (buf ! off) + 256 * unat (buf ! (off + 1))"

text \<open>
  \<open>src.copy(target, targetStart)\<close>: overwrites \<open>target\<close> from \<open>targetStart\<close> with as many
  bytes of \<open>src\<close> as fit.
\<close>

definition Buffer_copy :: "Buffer \<Rightarrow> Buffer \<Rightarrow> nat \<Rightarrow> Buffer" where
  "Buffer_copy src target targetStart =
     (let n = min (length src) (length target - targetStart)
      in take targetStart target @ take n src @ drop (targetStart + n) target)"

definition bytesAt :: "Buffer \<Rightarrow> nat \<Rightarrow> nat \<Rightarrow> Buffer" where
  "bytesAt buf off n = take n (drop off buf)"

subsection \<open>SignatureStructure\<close>

record SignatureVerificationData =
  signer :: PublicKey
  signature :: Buffer
  message :: Buffer

record SignatureStructure =
  publicKeyOffset :: nat
  signatureOffset :: nat
  messageOffset :: nat
  structureOffset :: nat

definition SignatureStructure_new :: "nat \<Rightarrow> nat \<Rightarrow> SignatureStructure" where
  "SignatureStructure_new signatureIndex signaturesStartOffset =
     (let so = signatureIndex * SIGNATURE_STRUCTURE_SIZE + 2;
          pk = signatureIndex * SIGNATURE_DATA_SIZE + signaturesStartOffset;
          sg = pk + 32;
          ms = sg + 64
      in \<lparr>publicKeyOffset = pk, signatureOffset = sg, messageOffset = ms, structureOffset = so\<rparr>)"

definition SignatureStructure_toBuffer :: "SignatureStructure \<Rightarrow> error + Buffer" where
  "SignatureStructure_toBuffer s =
     bindE (writeUInt16LE (signatureOffset s) 0 (Buffer_alloc SIGNATURE_STRUCTURE_SIZE)) (\<lambda>b.
     bindE (writeUInt16LE INSTRUCTION_INDEX 2 b) (\<lambda>b.
     bindE (writeUInt16LE (publicKeyOffset s) 4 b) (\<lambda>b.
     bindE (writeUInt16LE INSTRUCTION_INDEX 6 b) (\<lambda>b.
     bindE (writeUInt16LE (messageOffset s) 8 b) (\<lambda>b.
     bindE (writeUInt16LE MESSAGE_SIZE 10 b) (\<lambda>b.
     bindE (writeUInt16LE INSTRUCTION_INDEX 12 b) (\<lambda>b. Inr b)))))))"

subsection \<open>createSignatureVerificationInstruction\<close>

datatype ProgramId = Ed25519ProgramId | MainProgramId PublicKey

record TransactionInstruction =
  keys :: "PublicKey list"
  programId :: ProgramId
  data :: Buffer

text \<open>The body of the \<open>for\<close> loop, for the entry at index \<open>i\<close>.\<close>

definition writeSignature ::
  "SignatureVerificationData \<Rightarrow> nat \<Rightarrow> nat \<Rightarrow> Buffer \<Rightarrow> error + Buffer" where
  "writeSignature e i signaturesStartOffset dataBuffer =
     (if length (signature e) \<noteq> SIGNATURE_SIZE then Inl SignatureSizeError
      else if length (message e) \<noteq> MESSAGE_SIZE then Inl MessageSizeError
      else
        (let signatureOffset' = SignatureStructure_new i signaturesStartOffset in
         bindE (SignatureStructure_toBuffer signatureOffset') (\<lambda>sb.
           Inr (Buffer_copy (message e)
                 (Buffer_copy (signature e)
                   (Buffer_copy (PublicKey_toBuffer (signer e))
                     (Buffer_copy sb dataBuffer (structureOffset signatureOffset'))
                     (publicKeyOffset signatureOffset'))
                   (signatureOffset signatureOffset'))
                 (messageOffset signatureOffset')))))"

text \<open>The loop over the entries \<open>i, i + 1, \<dots>\<close>; the first \<open>throw\<close> ends it.\<close>

fun writeSignatures ::
  "SignatureVerificationData list \<Rightarrow> nat \<Rightarrow> nat \<Rightarrow> Buffer \<Rightarrow> error + Buffer" where
  "writeSignatures [] i signaturesStartOffset dataBuffer = Inr dataBuffer"
| "writeSignatures (e # es) i signaturesStartOffset dataBuffer =
     bindE (writeSignature e i signaturesStartOffset dataBuffer)
       (writeSignatures es (Suc i) signaturesStartOffset)"

definition createSignatureVerificationInstruction ::
  "SignatureVerificationData list \<Rightarrow> error + TransactionInstruction" where
  "createSignatureVerificationInstruction signatures =
     (let dataBuffer = Buffer_alloc (length signatures * SIGNATURE_DATA_PLUS_STRUCTURE_SIZE + 2) in
      bindE (writeUInt8 (length signatures) 0 dataBuffer) (\<lambda>dataBuffer.
        (let signaturesStartOffset = length signatures * SIGNATURE_STRUCTURE_SIZE + 2 in
         bindE (writeSignatures signatures 0 signaturesStartOffset dataBuffer) (\<lambda>dataBuffer.
           Inr \<lparr>keys = [], programId = Ed25519ProgramId, data = dataBuffer\<rparr>))))"

section \<open>The withdrawal flow\<close>

subsection \<open>Accounts, instructions and the remote calls\<close>

record Keypair =
  publicKey :: PublicKey
  secretKey :: Buffer

record CollateralAccount =
  adminFundsNonce :: nat
  coordinator :: PublicKey

text \<open>The executors field of a coordinator account may be missing (\<open>None\<close>).\<close>

record CoordinatorAccount =
  executors :: "PublicKey list option"

record CollateralAdminSignatures =
  signers :: "PublicKey list"

record SubmitSignatures =
  ss_salts :: "nat list list"
  ss_targetNonce :: nat
  ss_sender :: PublicKey
  ss_receiver :: PublicKey
  ss_asset :: PublicKey
  ss_withdrawRequest :: WithdrawCollateral
  ss_collateral :: PublicKey
  ss_collateralAdminSignatures :: PublicKey
  ss_rentPayer :: PublicKey

record WithdrawCollateralAsset =
  wc_withdrawRequest :: WithdrawCollateral
  wc_sender :: PublicKey
  wc_receiver :: PublicKey
  wc_asset :: PublicKey
  wc_collateralTokenAccount :: PublicKey
  wc_receiverTokenAccount :: PublicKey
  wc_coordinator :: PublicKey
  wc_collateral :: PublicKey
  wc_collateralAdminSignatures :: PublicKey

datatype Instruction =
    VerifyIx TransactionInstruction
  | SubmitSignaturesIx SubmitSignatures
  | WithdrawCollateralAssetIx WithdrawCollateralAsset

text \<open>
  The collaborators outside the repository: the digest primitive, the address
  derivations, \<open>randomBytes(32)\<close>, \<open>nacl.sign.detached\<close>, and the remote calls, each of which
  answers with a value or fails with a reason.
\<close>

record Env =
  sha3 :: SHA3
  findProgramAddressSync :: FindProgramAddress
  mainProgramId :: PublicKey
  randomBytes32 :: "nat list"
  nacl_sign_detached :: "Buffer \<Rightarrow> Buffer \<Rightarrow> Buffer"
  getAssociatedTokenAddress :: "PublicKey \<Rightarrow> PublicKey \<Rightarrow> PublicKey"
  getOrCreateAssociatedTokenAccount :: "Keypair \<Rightarrow> PublicKey \<Rightarrow> PublicKey \<Rightarrow> string + PublicKey"
  fetchCollateral :: "PublicKey \<Rightarrow> string + CollateralAccount"
  fetchCoordinator :: "PublicKey \<Rightarrow> string + CoordinatorAccount"
  fetchNullableCollateralAdminSignatures :: "PublicKey \<Rightarrow> string + CollateralAdminSignatures option"
  sendAndConfirmTransaction :: "Instruction list \<Rightarrow> Keypair list \<Rightarrow> string + string"

text \<open>The remote calls a run performs, in order.\<close>

datatype Call =
    FetchCollateral PublicKey
  | GetOrCreateAssociatedTokenAccount Keypair PublicKey PublicKey
  | FetchNullableCollateralAdminSignatures PublicKey
  | FetchCoordinator PublicKey
  | SendAndConfirmTransaction "Instruction list" "Keypair list"

text \<open>An asynchronous computation: the calls it made and its outcome.\<close>

type_synonym 'a Async = "Call list \<times> (error + 'a)"

definition resolve :: "'a \<Rightarrow> 'a Async" where
  "resolve x = ([], Inr x)"

definition liftE :: "error + 'a \<Rightarrow> 'a Async" where
  "liftE r = ([], r)"

definition await :: "'a Async \<Rightarrow> ('a \<Rightarrow> 'b Async) \<Rightarrow> 'b Async" where
  "await m f =
     (case m of
        (cs, Inl e) \<Rightarrow> (cs, Inl e)
      | (cs, Inr x) \<Rightarrow> (case f x of (cs', r) \<Rightarrow> (cs @ cs', r)))"

definition remote :: "Call \<Rightarrow> string + 'a \<Rightarrow> 'a Async" where
  "remote c answer = ([c], case answer of Inl reason \<Rightarrow> Inl (RpcFailure reason) | Inr x \<Rightarrow> Inr x)"

text \<open>\<open>new BN(n)\<close> for a number \<open>n\<close>: bn.js asserts \<open>n < 2^53\<close>.\<close>

definition BN_new :: "nat \<Rightarrow> error + nat" where
  "BN_new n = (if n < 2 ^ 53 then Inr n else Inl BNAssertionError)"

subsection \<open>submitCollateralSignature\<close>

definition submitCollateralSignature ::
  "Env \<Rightarrow> Keypair \<Rightarrow> PublicKey \<Rightarrow> PublicKey \<Rightarrow> WithdrawCollateral \<Rightarrow> nat \<Rightarrow> PublicKey \<Rightarrow> PublicKey Async" where
  "submitCollateralSignature env sender recipientAddress mintAddress withdrawRequest adminFundsNonce' collateralAddress =
     (let collateralMessageSalt = randomBytes32 env;
          collateralMessage = Collateral_getWithdrawMessage (sha3 env)
            collateralAddress (publicKey sender) recipientAddress mintAddress
            withdrawRequest collateralMessageSalt adminFundsNonce';
          collateralSignature = nacl_sign_detached env collateralMessage (secretKey sender);
          collateralSignatureAddress = Collateral_generateWithdrawCollateralPDA (sha3 env)
            (findProgramAddressSync env) collateralAddress (publicKey sender) recipientAddress
            mintAddress withdrawRequest adminFundsNonce' (mainProgramId env)
      in
      await (remote (FetchNullableCollateralAdminSignatures collateralSignatureAddress)
               (fetchNullableCollateralAdminSignatures env collateralSignatureAddress))
        (\<lambda>collateralSignatureAccount.
           if (case collateralSignatureAccount of
                 None \<Rightarrow> True
               | Some acct \<Rightarrow> list_all (\<lambda>s. s \<noteq> publicKey sender) (signers acct))
           then
             await (liftE (createSignatureVerificationInstruction
                      [\<lparr>signer = publicKey sender,
                        signature = collateralSignature,
                        message = collateralMessage\<rparr>]))
               (\<lambda>signatureVereficationInstruction.
                  (let transaction =
                     [VerifyIx signatureVereficationInstruction,
                      SubmitSignaturesIx
                        \<lparr>ss_salts = [collateralMessageSalt],
                         ss_targetNonce = adminFundsNonce',
                         ss_sender = publicKey sender,
                         ss_receiver = recipientAddress,
                         ss_asset = mintAddress,
                         ss_withdrawRequest = withdrawRequest,
                         ss_collateral = collateralAddress,
                         ss_collateralAdminSignatures = collateralSignatureAddress,
                         ss_rentPayer = publicKey sender\<rparr>]
                   in
                   await (remote (SendAndConfirmTransaction transaction [sender])
                            (sendAndConfirmTransaction env transaction [sender]))
                     (\<lambda>submitSignaturesHash. resolve collateralSignatureAddress)))
           else resolve collateralSignatureAddress))"

subsection \<open>executeWithdrawal\<close>

text \<open>
  The second half of \<open>executeWithdrawal\<close>, from the fetch of the coordinator account on:
  the executors check, the coordinator's verification instruction, the withdrawal
  instruction and the submission of the transaction holding both.
\<close>

definition withdrawWithCoordinator ::
  "Env \<Rightarrow> PublicKey \<Rightarrow> Keypair \<Rightarrow> PublicKey \<Rightarrow> PublicKey \<Rightarrow> WithdrawCollateral \<Rightarrow> nat list \<Rightarrow>
     CollateralAccount \<Rightarrow> PublicKey \<Rightarrow> PublicKey \<Rightarrow> PublicKey \<Rightarrow> string Async" where
  "withdrawWithCoordinator env collateral sender recipientAddress mintAddress withdrawRequest
       coordinatorSignature collateralAccount collateralTokenAccount destinationTokenAccount
       collateralSignatureAddress =
     await (remote (FetchCoordinator (coordinator collateralAccount))
              (fetchCoordinator env (coordinator collateralAccount)))
       (\<lambda>coordinator'.
          if (case executors coordinator' of None \<Rightarrow> True | Some ex \<Rightarrow> length ex = 0)
          then liftE (Inl NoExecutorsFound)
          else
            (case List.find (\<lambda>c. True) (the (executors coordinator')) of
               None \<Rightarrow> liftE (Inl TypeError)
             | Some executor \<Rightarrow>
                 await (liftE (createSignatureVerificationInstruction
                          [\<lparr>signer = executor,
                            signature = Uint8Array_from coordinatorSignature,
                            message = Coordinator_getWithdrawMessage (sha3 env)
                              collateral (coordinator collateralAccount) (publicKey sender)
                              recipientAddress mintAddress withdrawRequest
                              (adminFundsNonce collateralAccount)\<rparr>]))
                   (\<lambda>verifyInstruction.
                      (let transaction =
                         [VerifyIx verifyInstruction,
                          WithdrawCollateralAssetIx
                            \<lparr>wc_withdrawRequest = withdrawRequest,
                             wc_sender = publicKey sender,
                             wc_receiver = recipientAddress,
                             wc_asset = mintAddress,
                             wc_collateralTokenAccount = collateralTokenAccount,
                             wc_receiverTokenAccount = destinationTokenAccount,
                             wc_coordinator = coordinator collateralAccount,
                             wc_collateral = collateral,
                             wc_collateralAdminSignatures = collateralSignatureAddress\<rparr>]
                       in remote (SendAndConfirmTransaction transaction [sender])
                            (sendAndConfirmTransaction env transaction [sender])))))"

definition executeWithdrawal ::
  "Env \<Rightarrow> PublicKey \<Rightarrow> PublicKey \<Rightarrow> Keypair \<Rightarrow> PublicKey \<Rightarrow> PublicKey \<Rightarrow> nat \<Rightarrow> nat \<Rightarrow>
     Buffer \<Rightarrow> Buffer \<Rightarrow> string Async" where
  "executeWithdrawal env collateral depositAddress sender recipientAddress mintAddress expiration
       amountInCents signatureSalt signatureData =
     (let coordinatorMessageSalt = map unat signatureSalt;
          coordinatorSignature = map unat signatureData
      in
      await (liftE (BN_new expiration)) (\<lambda>expiresAt.
      await (liftE (BN_new amountInCents)) (\<lambda>amountOfAsset'.
        (let withdrawRequest =
               \<lparr>amountOfAsset = amountOfAsset',
                signatureExpirationTime = expiresAt,
                coordinatorSignatureSalt = coordinatorMessageSalt\<rparr>
         in
         await (remote (FetchCollateral collateral) (fetchCollateral env collateral))
           (\<lambda>collateralAccount.
              (let collateralTokenAccount = getAssociatedTokenAddress env mintAddress depositAddress in
               await (remote (GetOrCreateAssociatedTokenAccount sender mintAddress recipientAddress)
                        (getOrCreateAssociatedTokenAccount env sender mintAddress recipientAddress))
                 (\<lambda>destinationTokenAccount.
                    await (submitCollateralSignature env sender recipientAddress mintAddress
                             withdrawRequest (adminFundsNonce collateralAccount) collateral)
                      (\<lambda>collateralSignatureAddress.
                         withdrawWithCoordinator env collateral sender recipientAddress
                           mintAddress withdrawRequest coordinatorSignature collateralAccount
                           collateralTokenAccount destinationTokenAccount
                           collateralSignatureAddress))))))))"

section \<open>The specification's formulas\<close>

text \<open>
  The digest of the custody message as the specification writes it: \<open>hash\<close> of a
  hexadecimal string decodes it and hashes the bytes, a type hash hashes the UTF-8 bytes of
  a type string.
\<close>

definition spec_hash :: "SHA3 \<Rightarrow> string \<Rightarrow> string" where
  "spec_hash K hexInput = Hex_stringify (digest_bytes (K (Hex_parse hexInput)))"

definition spec_typeHash :: "SHA3 \<Rightarrow> string \<Rightarrow> string" where
  "spec_typeHash K s = Hex_stringify (digest_bytes (K (Utf8_parse s)))"

definition spec_domainSeparatorHash ::
  "SHA3 \<Rightarrow> string \<Rightarrow> string \<Rightarrow> nat \<Rightarrow> PublicKey \<Rightarrow> Buffer \<Rightarrow> string" where
  "spec_domainSeparatorHash K name version chainId verifyingEntity salt =
     spec_hash K
       (spec_typeHash K ''EIP712Domain(string name,string version,uint256 chainId,address verifyingContract,bytes32 salt)''
        @ spec_typeHash K name @ spec_typeHash K version @ encodeUInt64 chainId
        @ encodeAddress verifyingEntity @ encodeBytes salt)"

definition spec_custodyStructHash ::
  "SHA3 \<Rightarrow> PublicKey \<Rightarrow> PublicKey \<Rightarrow> PublicKey \<Rightarrow> nat \<Rightarrow> PublicKey \<Rightarrow> nat \<Rightarrow> string" where
  "spec_custodyStructHash K sender collateralAccount asset amount recipient nonce =
     spec_hash K
       (spec_typeHash K ''Withdraw(address user,address asset,uint256 amount,address recipient,uint256 nonce)''
        @ encodeAddress sender @ encodeAddress collateralAccount @ encodeAddress asset
        @ encodeUInt64 amount @ encodeAddress recipient @ encodeUInt32 nonce)"

definition spec_custodyDigest ::
  "SHA3 \<Rightarrow> PublicKey \<Rightarrow> PublicKey \<Rightarrow> PublicKey \<Rightarrow> PublicKey \<Rightarrow> nat \<Rightarrow> nat \<Rightarrow> Buffer \<Rightarrow> Buffer" where
  "spec_custodyDigest K collateral sender receiver asset amount nonce salt =
     digest_bytes (K (Hex_parse
       (encodeBytes [0x19, 0x01]
        @ spec_domainSeparatorHash K ''Collateral'' ''2'' 900 collateral salt
        @ spec_custodyStructHash K sender collateral asset amount receiver nonce)))"


text \<open>
  The layout of the instruction data: the 14-byte descriptor of an entry, the data block
  of an entry, and a reader of the blob at the documented offsets.
\<close>

definition descriptorBytes :: "nat \<Rightarrow> nat \<Rightarrow> nat \<Rightarrow> Buffer" where
  "descriptorBytes sg pk ms =
     [word_of_nat (sg mod 256), word_of_nat (sg div 256), 255, 255,
      word_of_nat (pk mod 256), word_of_nat (pk div 256), 255, 255,
      word_of_nat (ms mod 256), word_of_nat (ms div 256), 32, 0, 255, 255]"

definition descriptorAt :: "nat \<Rightarrow> nat \<Rightarrow> Buffer" where
  "descriptorAt start k =
     descriptorBytes (k * 128 + start + 32) (k * 128 + start) (k * 128 + start + 96)"

definition entryData :: "SignatureVerificationData \<Rightarrow> Buffer" where
  "entryData e = PublicKey_toBuffer (signer e) @ signature e @ message e"

definition readEntries :: "Buffer \<Rightarrow> (Buffer \<times> Buffer \<times> Buffer) list" where
  "readEntries blob =
     (let N = (case blob of [] \<Rightarrow> 0 | count # _ \<Rightarrow> unat count) in
      map (\<lambda>i.
            (let publicKeyOffset = i * 128 + N * 14 + 2;
                 signatureOffset = publicKeyOffset + 32;
                 messageOffset = signatureOffset + 64
             in (bytesAt blob publicKeyOffset 32,
                 bytesAt blob signatureOffset 64,
                 bytesAt blob messageOffset 32)))
        [0..<N])"

section \<open>An example run\<close>

text \<open>
  An example environment: no approval record exists yet, every remote call succeeds, the
  coordinator lists two executors.
\<close>

definition env0 :: Env where
  "env0 =
     \<lparr>sha3 = (\<lambda>w. 0),
      findProgramAddressSync = (\<lambda>seeds pid. 9),
      mainProgramId = 8,
      randomBytes32 = replicate 32 0,
      nacl_sign_detached = (\<lambda>m k. replicate 64 0),
      getAssociatedTokenAddress = (\<lambda>mint owner. 6),
      getOrCreateAssociatedTokenAccount = (\<lambda>payer mint owner. Inr 5),
      fetchCollateral = (\<lambda>a. Inr \<lparr>adminFundsNonce = 0, coordinator = 3\<rparr>),
      fetchCoordinator = (\<lambda>a. Inr \<lparr>executors = Some [7, 11]\<rparr>),
      fetchNullableCollateralAdminSignatures = (\<lambda>a. Inr None),
      sendAndConfirmTransaction = (\<lambda>tx ks. Inr ''confirmed'')\<rparr>"

definition sender0 :: Keypair where
  "sender0 = \<lparr>publicKey = 1, secretKey = replicate 64 0\<rparr>"

definition request0 :: WithdrawCollateral where
  "request0 = \<lparr>amountOfAsset = 1000000, signatureExpirationTime = 1763066371,
               coordinatorSignatureSalt = replicate 32 0\<rparr>"

section \<open>Hexadecimal encoding and the message codecs\<close>

lemma hexdigit_cases: "d < 16 \<Longrightarrow> d \<in> {0,1,2,3,4,5,6,7,8,9,10,11,12,13,14,15::nat}"
  by simp arith

lemma hexval_hexdigit: "d < 16 \<Longrightarrow> hexval (hexdigit d) = Some d"
  using hexdigit_cases[of d] by (auto simp: hexval_def hexdigit_def)

lemma length_be_bytes: "length (be_bytes n v) = n"
  by (simp add: be_bytes_def)

lemma Buffer_from_hex_byteHex:
  "Buffer_from_hex (byteHex b @ rest) = b # Buffer_from_hex rest"
proof -
  have lt: "unat b < 256" using unsigned_less[of b] by simp
  then have d: "unat b div 16 < 16" by simp
  have m: "unat b mod 16 < 16" by simp
  have "16 * (unat b div 16) + unat b mod 16 = unat b" by simp
  then show ?thesis
    by (simp add: byteHex_def hexval_hexdigit[OF d] hexval_hexdigit[OF m])
qed

lemma Buffer_from_hex_stringify: "Buffer_from_hex (Hex_stringify bs) = bs"
  by (induction bs) (simp_all add: Hex_stringify_def Buffer_from_hex_byteHex)

lemma length_digest_bytes: "length (digest_bytes h) = 32"
  by (simp add: digest_bytes_def length_be_bytes)

lemma Buffer_from_hex_keccak256Hex:
  "Buffer_from_hex (keccak256Hex K s) = digest_bytes (K (Hex_parse s))"
  by (simp add: keccak256Hex_def Buffer_from_hex_stringify)

lemma length_Hex_stringify: "length (Hex_stringify bs) = 2 * length bs"
  by (induction bs) (simp_all add: Hex_stringify_def byteHex_def)

lemma length_toString16_pos: "0 < length (toString16 v)"
  by (subst toString16.simps) simp

lemma length_toString16_le: "length (toString16 v) \<le> Suc n \<longleftrightarrow> v < 16 ^ Suc n"
proof (induction n arbitrary: v)
  case 0
  show ?case using length_toString16_pos[of "v div 16"]
    by (subst toString16.simps) auto
next
  case (Suc n)
  show ?case
  proof (cases "v < 16")
    case True
    have "(16::nat) \<le> 16 ^ Suc (Suc n)" by simp
    with True have "v < 16 ^ Suc (Suc n)" by linarith
    moreover have "length (toString16 v) = 1" using True by (subst toString16.simps) simp
    ultimately show ?thesis by simp
  next
    case False
    have "length (toString16 v) = Suc (length (toString16 (v div 16)))"
      using False by (subst toString16.simps) simp
    moreover have "v div 16 < 16 ^ Suc n \<longleftrightarrow> v < 16 ^ Suc (Suc n)"
      by (simp add: div_less_iff_less_mult)
    ultimately show ?thesis using Suc.IH[of "v div 16"] by simp
  qed
qed

lemma length_encodeUInt32: "length (encodeUInt32 v) = max 8 (length (toString16 v))"
  by (simp add: encodeUInt32_def padStart_def)

lemma length_encodeUInt64: "length (encodeUInt64 v) = max 16 (length (toString16 v))"
  by (simp add: encodeUInt64_def padStart_def)

lemma encodeUInt32_width: "length (encodeUInt32 v) = 8 \<longleftrightarrow> v < 2 ^ 32"
proof -
  have "length (toString16 v) \<le> Suc 7 \<longleftrightarrow> v < 16 ^ Suc 7" by (rule length_toString16_le)
  then show ?thesis by (auto simp add: length_encodeUInt32 max_def)
qed

lemma encodeUInt64_width: "length (encodeUInt64 v) = 16 \<longleftrightarrow> v < 2 ^ 64"
proof -
  have "length (toString16 v) \<le> Suc 15 \<longleftrightarrow> v < 16 ^ Suc 15" by (rule length_toString16_le)
  then show ?thesis by (auto simp add: length_encodeUInt64 max_def)
qed

lemma byte_toString16: "padStart 2 (CHR ''0'') (toString16 (unat (b::byte))) = byteHex b"
proof -
  have lt: "unat b < 256" using unsigned_less[of b] by simp
  show ?thesis
  proof (cases "unat b < 16")
    case True
    then show ?thesis
      by (subst toString16.simps) (simp add: padStart_def byteHex_def hexdigit_def)
  next
    case False
    from lt have "unat b div 16 < 16" by simp
    then have "toString16 (unat b div 16) = [hexdigit (unat b div 16)]"
      by (subst toString16.simps) simp
    then show ?thesis using False
      by (subst toString16.simps) (simp add: padStart_def byteHex_def)
  qed
qed

lemma encodeBytes_eq: "encodeBytes v = Hex_stringify v"
  by (simp add: encodeBytes_def Hex_stringify_def byte_toString16)

lemma length_encodeAddress: "length (encodeAddress a) = 64"
  by (simp add: encodeAddress_def length_Hex_stringify PublicKey_toBuffer_def length_be_bytes)

text \<open>
  Claim C1.  For every custody field set, \<open>Collateral.getWithdrawMessage\<close> returns the
  32 digest bytes of the hex-decoded concatenation of the prefix \<open>19 01\<close>, the
  domain-separator hash for name \<open>Collateral\<close>, version \<open>2\<close>, chain id 900, the collateral
  address and the salt, and the custody struct hash; \<open>spec_custodyDigest\<close> is that formula
  written out with \<open>@\<close> for the concatenation of hexadecimal strings.
\<close>

theorem Collateral_getWithdrawMessage_spec:
  "Collateral_getWithdrawMessage K collateral sender receiver asset withdraw salt nonce =
     spec_custodyDigest K collateral sender receiver asset (amountOfAsset withdraw) nonce
       (Uint8Array_from salt)"
  by (simp add: Collateral_getWithdrawMessage_def spec_custodyDigest_def
      Buffer_from_hex_stringify Collateral_encode_def
      Collateral_domainSeparatorEncode_def spec_domainSeparatorHash_def
      Collateral_encodeWithdrawMessage_def spec_custodyStructHash_def
      Collateral_DOMAIN_TYPE_HASH_def Collateral_WITHDRAW_TYPE_HASH_def
      EIP712_DOMAIN_TYPE_def COLLATERAL_WITHDRAW_TYPE_def
      encodeString_def keccak256_def keccak256Hex_def spec_hash_def spec_typeHash_def)

lemma length_Collateral_getWithdrawMessage:
  "length (Collateral_getWithdrawMessage K c s r a w salt n) = 32"
  by (simp add: Collateral_getWithdrawMessage_def Buffer_from_hex_keccak256Hex length_digest_bytes)

lemma length_Coordinator_getWithdrawMessage:
  "length (Coordinator_getWithdrawMessage K c co s r a w n) = 32"
  by (simp add: Coordinator_getWithdrawMessage_def Buffer_from_hex_keccak256Hex length_digest_bytes)

section \<open>The layout of the instruction data\<close>

lemma bindE_Inl [simp]: "bindE (Inl e) f = Inl e"
  by (simp add: bindE_def)

lemma bindE_Inr [simp]: "bindE (Inr x) f = f x"
  by (simp add: bindE_def)

lemma length_PublicKey_toBuffer [simp]: "length (PublicKey_toBuffer k) = 32"
  by (simp add: PublicKey_toBuffer_def length_be_bytes)

lemma length_descriptorBytes [simp]: "length (descriptorBytes a b c) = 14"
  by (simp add: descriptorBytes_def)

lemma length_descriptorAt [simp]: "length (descriptorAt start k) = 14"
  by (simp add: descriptorAt_def)

lemma Buffer_copy_into:
  assumes "off = length A" and "length src = length mid"
  shows "Buffer_copy src (A @ mid @ R) off = A @ src @ R"
  using assms by (simp add: Buffer_copy_def Let_def)

lemma list_update_Cons_numeral:
  "(x # xs)[numeral k := y] = x # xs[pred_numeral k := y]"
  by (simp add: numeral_eq_Suc)

lemma alloc14: "Buffer_alloc 14 = [0, 0, 0, 0, 0, 0, 0, 0, 0, 0, 0, 0, 0, 0]"
  by (simp add: Buffer_alloc_def numeral_eq_Suc)

lemma SignatureStructure_toBuffer_ok:
  assumes "signatureOffset s \<le> 65535" and "publicKeyOffset s \<le> 65535"
    and "messageOffset s \<le> 65535"
  shows "SignatureStructure_toBuffer s =
           Inr (descriptorBytes (signatureOffset s) (publicKeyOffset s) (messageOffset s))"
  using assms
  by (simp add: SignatureStructure_toBuffer_def alloc14 writeUInt16LE_def descriptorBytes_def
      list_update_Cons_numeral)

lemma length_entryData:
  "length (signature e) = 64 \<Longrightarrow> length (message e) = 32 \<Longrightarrow> length (entryData e) = 128"
  by (simp add: entryData_def)

lemma writeSignature_shape:
  assumes sg: "length (signature e) = 64" and ms: "length (message e) = 32"
    and P: "length P = 2 + 14 * i"
    and M: "length P + 14 + length M = start + 128 * i"
    and rng: "i * 128 + start + 96 \<le> 65535"
  shows "writeSignature e i start (P @ replicate 14 0 @ M @ replicate 128 0 @ R) =
           Inr (P @ descriptorAt start i @ M @ entryData e @ R)"
proof -
  let ?s = "SignatureStructure_new i start"
  let ?d = "descriptorAt start i"
  let ?pk = "PublicKey_toBuffer (signer e)"
  have offs: "structureOffset ?s = i * 14 + 2" "publicKeyOffset ?s = i * 128 + start"
    "signatureOffset ?s = i * 128 + start + 32" "messageOffset ?s = i * 128 + start + 96"
    by (simp_all add: SignatureStructure_new_def Let_def)
  have tb: "SignatureStructure_toBuffer ?s = Inr ?d"
    using rng by (simp add: SignatureStructure_toBuffer_ok offs descriptorAt_def)
  have z: "replicate 128 (0::byte) = replicate 32 0 @ replicate 64 0 @ replicate 32 0"
    by (simp add: replicate_add[symmetric])
  have c1: "Buffer_copy ?d (P @ replicate 14 0 @ M @ replicate 128 0 @ R) (structureOffset ?s) =
              P @ ?d @ M @ replicate 128 0 @ R"
    using P by (intro Buffer_copy_into) (simp_all add: offs)
  have c2: "Buffer_copy ?pk (P @ ?d @ M @ replicate 128 0 @ R) (publicKeyOffset ?s) =
              P @ ?d @ M @ ?pk @ replicate 64 0 @ replicate 32 0 @ R"
  proof -
    have "Buffer_copy ?pk ((P @ ?d @ M) @ replicate 32 0 @ (replicate 64 0 @ replicate 32 0 @ R))
            (publicKeyOffset ?s) = (P @ ?d @ M) @ ?pk @ (replicate 64 0 @ replicate 32 0 @ R)"
      using M by (intro Buffer_copy_into) (simp_all add: offs)
    then show ?thesis by (simp add: z)
  qed
  have c3: "Buffer_copy (signature e) (P @ ?d @ M @ ?pk @ replicate 64 0 @ replicate 32 0 @ R)
              (signatureOffset ?s) = P @ ?d @ M @ ?pk @ signature e @ replicate 32 0 @ R"
  proof -
    have "Buffer_copy (signature e) ((P @ ?d @ M @ ?pk) @ replicate 64 0 @ (replicate 32 0 @ R))
            (signatureOffset ?s) = (P @ ?d @ M @ ?pk) @ signature e @ (replicate 32 0 @ R)"
      using M sg by (intro Buffer_copy_into) (simp_all add: offs)
    then show ?thesis by simp
  qed
  have c4: "Buffer_copy (message e) (P @ ?d @ M @ ?pk @ signature e @ replicate 32 0 @ R)
              (messageOffset ?s) = P @ ?d @ M @ ?pk @ signature e @ message e @ R"
  proof -
    have "Buffer_copy (message e) ((P @ ?d @ M @ ?pk @ signature e) @ replicate 32 0 @ R)
            (messageOffset ?s) = (P @ ?d @ M @ ?pk @ signature e) @ message e @ R"
      using M sg ms by (intro Buffer_copy_into) (simp_all add: offs)
    then show ?thesis by simp
  qed
  show ?thesis
    unfolding writeSignature_def Let_def
    by (simp only: sg ms tb c1 c2 c3 c4 bindE_Inr entryData_def append_assoc simp_thms if_False)
qed

lemma writeSignatures_shape:
  assumes "\<forall>e\<in>set es. length (signature e) = 64 \<and> length (message e) = 32"
    and "length P = 2 + 14 * i"
    and "length P + 14 * length es + length M = start + 128 * i"
    and "(i + length es) * 128 + start \<le> 65536"
  shows "writeSignatures es i start
           (P @ replicate (14 * length es) 0 @ M @ replicate (128 * length es) 0) =
         Inr (P @ concat (map (\<lambda>j. descriptorAt start (i + j)) [0..<length es]) @ M @
              concat (map entryData es))"
  using assms
proof (induction es arbitrary: i P M)
  case Nil
  then show ?case by simp
next
  case (Cons e es)
  let ?n = "length es"
  have sg: "length (signature e) = 64" and ms: "length (message e) = 32"
    using Cons.prems(1) by simp_all
  have z14: "replicate (14 + 14 * ?n) (0::byte) = replicate 14 0 @ replicate (14 * ?n) 0"
    by (simp add: replicate_add)
  have z128: "replicate (128 + 128 * ?n) (0::byte) = replicate 128 0 @ replicate (128 * ?n) 0"
    by (simp add: replicate_add)
  have step: "writeSignature e i start
                (P @ replicate 14 0 @ (replicate (14 * ?n) 0 @ M) @ replicate 128 0 @ replicate (128 * ?n) 0) =
              Inr (P @ descriptorAt start i @ (replicate (14 * ?n) 0 @ M) @ entryData e @ replicate (128 * ?n) 0)"
    using Cons.prems(2,3,4) by (intro writeSignature_shape sg ms) simp_all
  have ih: "writeSignatures es (Suc i) start
              ((P @ descriptorAt start i) @ replicate (14 * ?n) 0 @ (M @ entryData e) @ replicate (128 * ?n) 0) =
            Inr ((P @ descriptorAt start i) @
                 concat (map (\<lambda>j. descriptorAt start (Suc i + j)) [0..<?n]) @ (M @ entryData e) @
                 concat (map entryData es))"
    using Cons.prems by (intro Cons.IH) (simp_all add: length_entryData[OF sg ms])
  have "writeSignatures (e # es) i start
          (P @ replicate (14 * length (e # es)) 0 @ M @ replicate (128 * length (e # es)) 0) =
        writeSignatures es (Suc i) start
          (P @ descriptorAt start i @ (replicate (14 * ?n) 0 @ M) @ entryData e @ replicate (128 * ?n) 0)"
    using step by (simp add: z14 z128 del: replicate_Suc)
  also have "\<dots> = Inr ((P @ descriptorAt start i) @
                 concat (map (\<lambda>j. descriptorAt start (Suc i + j)) [0..<?n]) @ (M @ entryData e) @
                 concat (map entryData es))"
    using ih by simp
  also have "\<dots> = Inr (P @ concat (map (\<lambda>j. descriptorAt start (i + j)) [0..<length (e # es)]) @ M @
              concat (map entryData (e # es)))"
    by (simp add: map_upt_Suc del: upt_Suc)
  finally show ?case .
qed

lemma createSignatureVerificationInstruction_closed_form:
  assumes N: "length sigs \<le> 255"
    and v: "\<forall>e\<in>set sigs. length (signature e) = 64 \<and> length (message e) = 32"
  shows "createSignatureVerificationInstruction sigs =
           Inr \<lparr>keys = [], programId = Ed25519ProgramId,
                data = [word_of_nat (length sigs), 0] @
                       concat (map (descriptorAt (length sigs * 14 + 2)) [0..<length sigs]) @
                       concat (map entryData sigs)\<rparr>"
proof -
  let ?N = "length sigs"
  have "replicate (?N * 142 + 2) (0::byte) =
          replicate 2 0 @ replicate (14 * ?N) 0 @ replicate (128 * ?N) 0"
    by (simp add: replicate_add[symmetric])
  then have alloc: "Buffer_alloc (?N * 142 + 2) =
          [0, 0] @ replicate (14 * ?N) 0 @ [] @ replicate (128 * ?N) 0"
    by (simp add: Buffer_alloc_def numeral_2_eq_2)
  have w8: "writeUInt8 ?N 0 (Buffer_alloc (?N * 142 + 2)) =
          Inr ([word_of_nat ?N, 0] @ replicate (14 * ?N) 0 @ [] @ replicate (128 * ?N) 0)"
    using N unfolding alloc by (simp add: writeUInt8_def)
  have loop: "writeSignatures sigs 0 (?N * 14 + 2)
          ([word_of_nat ?N, 0] @ replicate (14 * ?N) 0 @ [] @ replicate (128 * ?N) 0) =
        Inr ([word_of_nat ?N, 0] @
             concat (map (\<lambda>j. descriptorAt (?N * 14 + 2) (0 + j)) [0..<?N]) @ [] @
             concat (map entryData sigs))"
    using N v by (intro writeSignatures_shape) simp_all
  show ?thesis
    unfolding createSignatureVerificationInstruction_def Let_def
    using w8 loop by simp
qed

lemma drop_concat_blocks:
  assumes "\<forall>x\<in>set xss. length x = n" and "i \<le> length xss"
  shows "drop (i * n) (concat xss) = concat (drop i xss)"
  using assms
proof (induction xss arbitrary: i)
  case Nil
  then show ?case by simp
next
  case (Cons x xss)
  then show ?case by (cases i) simp_all
qed

lemma bytesAt_blocks:
  assumes len: "\<forall>x\<in>set xss. length x = n" and i: "i < length xss"
  shows "bytesAt (P @ concat xss @ R) (length P + i * n) n = xss ! i"
proof -
  have "drop (i * n) (concat xss) = concat (drop i xss)"
    using len i by (intro drop_concat_blocks) simp_all
  also have "drop i xss = xss ! i # drop (Suc i) xss"
    using i by (simp add: Cons_nth_drop_Suc)
  finally have d: "drop (i * n) (concat xss) = xss ! i @ concat (drop (Suc i) xss)"
    by simp
  have l: "length (xss ! i) = n" using len i by simp
  have le: "i * n \<le> length (concat xss)"
  proof -
    have "length (drop (i * n) (concat xss)) \<ge> n" using d l by simp
    then have "n \<le> length (concat xss) - i * n" by simp
    then show ?thesis by (cases "n = 0") simp_all
  qed
  show ?thesis using d l le by (simp add: bytesAt_def)
qed

lemma bytesAt_slice:
  "a + m \<le> n \<Longrightarrow> bytesAt (bytesAt buf off n) a m = bytesAt buf (off + a) m"
  by (simp add: bytesAt_def drop_take min_def add.commute)

lemma nth_bytesAt:
  "k < n \<Longrightarrow> off + n \<le> length buf \<Longrightarrow> bytesAt buf off n ! k = buf ! (off + k)"
  by (simp add: bytesAt_def)

lemma bytesAt_entryData:
  assumes "length (signature e) = 64" and "length (message e) = 32"
  shows "bytesAt (entryData e) 0 32 = PublicKey_toBuffer (signer e)"
    and "bytesAt (entryData e) 32 64 = signature e"
    and "bytesAt (entryData e) 96 32 = message e"
  using assms by (simp_all add: bytesAt_def entryData_def)

lemma unat_byte_lo: "unat (word_of_nat (v mod 256) :: byte) = v mod 256"
  by (simp add: unat_of_nat)

lemma unat_byte_hi: "v < 65536 \<Longrightarrow> unat (word_of_nat (v div 256) :: byte) = v div 256"
  by (simp add: unat_of_nat)

lemma readUInt16LE_descriptor:
  assumes sl: "bytesAt blob d 14 = descriptorBytes sg pk ms"
    and len: "d + 14 \<le> length blob"
    and rng: "sg < 65536" "pk < 65536" "ms < 65536"
  shows "readUInt16LE blob d = sg \<and> readUInt16LE blob (d + 2) = 65535 \<and>
         readUInt16LE blob (d + 4) = pk \<and> readUInt16LE blob (d + 6) = 65535 \<and>
         readUInt16LE blob (d + 8) = ms \<and> readUInt16LE blob (d + 10) = 32 \<and>
         readUInt16LE blob (d + 12) = 65535"
proof -
  have nth: "blob ! (d + k) = descriptorBytes sg pk ms ! k" if "k < 14" for k
    using nth_bytesAt[OF that len] sl by simp
  have r: "readUInt16LE blob (d + k) =
             unat (descriptorBytes sg pk ms ! k) + 256 * unat (descriptorBytes sg pk ms ! Suc k)"
    if "Suc k < 14" for k
    using that nth[of k] nth[of "Suc k"] by (simp add: readUInt16LE_def)
  show ?thesis
    using rng r[of 0] r[of 2] r[of 4] r[of 6] r[of 8] r[of 10] r[of 12]
    by (simp add: descriptorBytes_def unat_byte_lo unat_byte_hi)
qed

lemma length_concat_blocks:
  "\<forall>x\<in>set xss. length x = n \<Longrightarrow> length (concat xss) = length xss * n"
  by (induction xss) simp_all

lemma closed_form_layout:
  assumes v: "\<forall>e\<in>set sigs. length (signature e) = 64 \<and> length (message e) = 32"
    and blob: "blob = [c, 0] @ concat (map (descriptorAt st) [0..<length sigs]) @
                      concat (map entryData sigs)"
  shows "length blob = length sigs * 142 + 2"
    and "i < length sigs \<Longrightarrow> bytesAt blob (2 + i * 14) 14 = descriptorAt st i"
    and "i < length sigs \<Longrightarrow>
           bytesAt blob (i * 128 + length sigs * 14 + 2) 128 = entryData (sigs ! i)"
proof -
  let ?D = "map (descriptorAt st) [0..<length sigs]"
  let ?X = "map entryData sigs"
  have lD: "\<forall>x\<in>set ?D. length x = 14" by simp
  have lX: "\<forall>x\<in>set ?X. length x = 128" using v by (simp add: length_entryData)
  have cD: "length (concat ?D) = length sigs * 14"
    using length_concat_blocks[OF lD] by simp
  have cX: "length (concat ?X) = length sigs * 128"
    using length_concat_blocks[OF lX] by simp
  show "length blob = length sigs * 142 + 2"
    by (simp add: blob cD cX)
  show "bytesAt blob (2 + i * 14) 14 = descriptorAt st i" if i: "i < length sigs"
  proof -
    have "bytesAt ([c, 0] @ concat ?D @ concat ?X) (length [c, 0] + i * 14) 14 = ?D ! i"
      using i by (intro bytesAt_blocks lD) simp
    then show ?thesis using i by (simp add: blob)
  qed
  show "bytesAt blob (i * 128 + length sigs * 14 + 2) 128 = entryData (sigs ! i)"
    if i: "i < length sigs"
  proof -
    have "bytesAt (([c, 0] @ concat ?D) @ concat ?X @ []) (length ([c, 0] @ concat ?D) + i * 128) 128
            = ?X ! i"
      using i by (intro bytesAt_blocks lX) simp
    then show ?thesis using i by (simp add: blob cD add.commute add.left_commute)
  qed
qed

lemma entry_fields:
  assumes e: "bytesAt blob off 128 = entryData x"
    and vi: "length (signature x) = 64" "length (message x) = 32"
  shows "bytesAt blob off 32 = PublicKey_toBuffer (signer x)"
    and "bytesAt blob (off + 32) 64 = signature x"
    and "bytesAt blob (off + 96) 32 = message x"
  using bytesAt_slice[of 0 32 128 blob off] bytesAt_slice[of 32 64 128 blob off]
    bytesAt_slice[of 96 32 128 blob off] bytesAt_entryData[OF vi]
  by (simp_all add: e)

text \<open>
  Claim C3.  For a list of \<open>N \<le> 255\<close> valid entries the builder returns an instruction
  whose data has \<open>N * 142 + 2\<close> bytes, byte 0 equal to \<open>N\<close>, for every entry \<open>i\<close> a
  descriptor at offset \<open>2 + i * 14\<close> whose little-endian 16-bit fields are the signature
  offset, \<open>0xffff\<close>, the public-key offset, \<open>0xffff\<close>, the message offset, 32 and
  \<open>0xffff\<close>, and at those offsets the 32-byte public key, the 64-byte signature and the
  32-byte message, where the public-key offset is \<open>i * 128 + N * 14 + 2\<close>, the signature
  offset 32 more and the message offset another 64 more.
\<close>

theorem createSignatureVerificationInstruction_layout:
  assumes N: "length sigs \<le> 255"
    and v: "\<forall>e\<in>set sigs. length (signature e) = 64 \<and> length (message e) = 32"
  shows "\<exists>ins. createSignatureVerificationInstruction sigs = Inr ins \<and>
           length (data ins) = length sigs * 142 + 2 \<and>
           unat (data ins ! 0) = length sigs \<and>
           (\<forall>i<length sigs.
              let dataRegionStart = length sigs * 14 + 2;
                  pkOff = i * 128 + dataRegionStart;
                  sigOff = pkOff + 32;
                  msgOff = sigOff + 64;
                  d = 2 + i * 14
              in readUInt16LE (data ins) d = sigOff \<and>
                 readUInt16LE (data ins) (d + 2) = 65535 \<and>
                 readUInt16LE (data ins) (d + 4) = pkOff \<and>
                 readUInt16LE (data ins) (d + 6) = 65535 \<and>
                 readUInt16LE (data ins) (d + 8) = msgOff \<and>
                 readUInt16LE (data ins) (d + 10) = 32 \<and>
                 readUInt16LE (data ins) (d + 12) = 65535 \<and>
                 bytesAt (data ins) pkOff 32 = PublicKey_toBuffer (signer (sigs ! i)) \<and>
                 bytesAt (data ins) sigOff 64 = signature (sigs ! i) \<and>
                 bytesAt (data ins) msgOff 32 = message (sigs ! i))"
proof -
  define N where "N = length sigs"
  define st where "st = N * 14 + 2"
  define blob where "blob = [word_of_nat N, 0] @ concat (map (descriptorAt st) [0..<length sigs]) @
               concat (map entryData sigs)"
  define ins where "ins = \<lparr>keys = [], programId = Ed25519ProgramId, data = blob\<rparr>"
  have cf: "createSignatureVerificationInstruction sigs = Inr ins"
    unfolding ins_def blob_def st_def N_def
    using N v by (rule createSignatureVerificationInstruction_closed_form)
  note lay = closed_form_layout[OF v blob_def]
  have len: "length blob = N * 142 + 2" using lay(1) by (simp add: N_def)
  have cnt: "unat (blob ! 0) = N" using N by (simp add: blob_def N_def unat_of_nat)
  have ent: "readUInt16LE blob (2 + i * 14) = i * 128 + st + 32 \<and>
             readUInt16LE blob (2 + i * 14 + 2) = 65535 \<and>
             readUInt16LE blob (2 + i * 14 + 4) = i * 128 + st \<and>
             readUInt16LE blob (2 + i * 14 + 6) = 65535 \<and>
             readUInt16LE blob (2 + i * 14 + 8) = i * 128 + st + 32 + 64 \<and>
             readUInt16LE blob (2 + i * 14 + 10) = 32 \<and>
             readUInt16LE blob (2 + i * 14 + 12) = 65535 \<and>
             bytesAt blob (i * 128 + st) 32 = PublicKey_toBuffer (signer (sigs ! i)) \<and>
             bytesAt blob (i * 128 + st + 32) 64 = signature (sigs ! i) \<and>
             bytesAt blob (i * 128 + st + 32 + 64) 32 = message (sigs ! i)"
    if i: "i < N" for i
  proof -
    have i': "i < length sigs" using i by (simp add: N_def)
    have vi: "length (signature (sigs ! i)) = 64" "length (message (sigs ! i)) = 32"
      using v i' by simp_all
    have d: "bytesAt blob (2 + i * 14) 14 =
               descriptorBytes (i * 128 + st + 32) (i * 128 + st) (i * 128 + st + 96)"
      using lay(2)[OF i'] by (simp add: descriptorAt_def)
    have fit: "2 + i * 14 + 14 \<le> length blob" using i unfolding len by simp
    have rd: "readUInt16LE blob (2 + i * 14) = i * 128 + st + 32 \<and>
              readUInt16LE blob (2 + i * 14 + 2) = 65535 \<and>
              readUInt16LE blob (2 + i * 14 + 4) = i * 128 + st \<and>
              readUInt16LE blob (2 + i * 14 + 6) = 65535 \<and>
              readUInt16LE blob (2 + i * 14 + 8) = i * 128 + st + 96 \<and>
              readUInt16LE blob (2 + i * 14 + 10) = 32 \<and>
              readUInt16LE blob (2 + i * 14 + 12) = 65535"
      using i N by (intro readUInt16LE_descriptor[OF d fit]) (simp_all add: st_def N_def)
    have e: "bytesAt blob (i * 128 + st) 128 = entryData (sigs ! i)"
      using lay(3)[OF i'] by (simp add: st_def N_def add.assoc)
    note f = entry_fields[OF e vi]
    have a96: "i * 128 + st + 32 + 64 = i * 128 + st + 96" by simp
    show ?thesis unfolding a96 using rd f by blast
  qed
  have "length (data ins) = length sigs * 142 + 2 \<and> unat (data ins ! 0) = length sigs \<and>
        (\<forall>i<length sigs.
              let dataRegionStart = length sigs * 14 + 2;
                  pkOff = i * 128 + dataRegionStart;
                  sigOff = pkOff + 32;
                  msgOff = sigOff + 64;
                  d = 2 + i * 14
              in readUInt16LE (data ins) d = sigOff \<and>
                 readUInt16LE (data ins) (d + 2) = 65535 \<and>
                 readUInt16LE (data ins) (d + 4) = pkOff \<and>
                 readUInt16LE (data ins) (d + 6) = 65535 \<and>
                 readUInt16LE (data ins) (d + 8) = msgOff \<and>
                 readUInt16LE (data ins) (d + 10) = 32 \<and>
                 readUInt16LE (data ins) (d + 12) = 65535 \<and>
                 bytesAt (data ins) pkOff 32 = PublicKey_toBuffer (signer (sigs ! i)) \<and>
                 bytesAt (data ins) sigOff 64 = signature (sigs ! i) \<and>
                 bytesAt (data ins) msgOff 32 = message (sigs ! i))"
  proof -
    have di: "data ins = blob" by (simp add: ins_def)
    show ?thesis
      unfolding Let_def di N_def[symmetric] st_def[symmetric]
      using len cnt ent by blast
  qed
  with cf show ?thesis by blast
qed

theorem createSignatureVerificationInstruction_layout_witness:
  "\<exists>ins. createSignatureVerificationInstruction
            [\<lparr>signer = 258, signature = replicate 64 7, message = replicate 32 9\<rparr>] = Inr ins \<and>
         length (data ins) = 144 \<and> unat (data ins ! 0) = 1 \<and>
         readUInt16LE (data ins) 2 = 48 \<and> readUInt16LE (data ins) 4 = 65535 \<and>
         readUInt16LE (data ins) 6 = 16 \<and> readUInt16LE (data ins) 8 = 65535 \<and>
         readUInt16LE (data ins) 10 = 112 \<and> readUInt16LE (data ins) 12 = 32 \<and>
         readUInt16LE (data ins) 14 = 65535 \<and>
         bytesAt (data ins) 16 32 = PublicKey_toBuffer 258 \<and>
         bytesAt (data ins) 48 64 = replicate 64 7 \<and>
         bytesAt (data ins) 112 32 = replicate 32 9"
  using createSignatureVerificationInstruction_layout
          [of "[\<lparr>signer = 258, signature = replicate 64 7, message = replicate 32 9\<rparr>]"]
  by (simp add: Let_def)

text \<open>
  Claim C4.  Round trip: reading the blob built from \<open>N \<le> 255\<close> valid entries back at the
  documented offsets (count in byte 0, public key at \<open>i * 128 + N * 14 + 2\<close>, signature 32
  bytes later, message 64 bytes after that) returns the public keys, signatures and
  messages of the entries, byte for byte and in order.
\<close>

theorem readEntries_createSignatureVerificationInstruction:
  assumes N: "length sigs \<le> 255"
    and v: "\<forall>e\<in>set sigs. length (signature e) = 64 \<and> length (message e) = 32"
  shows "\<exists>ins. createSignatureVerificationInstruction sigs = Inr ins \<and>
           readEntries (data ins) =
             map (\<lambda>e. (PublicKey_toBuffer (signer e), signature e, message e)) sigs"
proof -
  define st where "st = length sigs * 14 + 2"
  define blob where "blob = [word_of_nat (length sigs), 0] @
      concat (map (descriptorAt st) [0..<length sigs]) @ concat (map entryData sigs)"
  have cf: "createSignatureVerificationInstruction sigs =
              Inr \<lparr>keys = [], programId = Ed25519ProgramId, data = blob\<rparr>"
    unfolding blob_def st_def
    using N v by (rule createSignatureVerificationInstruction_closed_form)
  note lay = closed_form_layout[OF v blob_def]
  have cnt: "(case blob of [] \<Rightarrow> 0 | count # _ \<Rightarrow> unat count) = length sigs"
    using N by (simp add: blob_def unat_of_nat)
  have ent: "(bytesAt blob (i * 128 + length sigs * 14 + 2) 32,
              bytesAt blob (i * 128 + length sigs * 14 + 2 + 32) 64,
              bytesAt blob (i * 128 + length sigs * 14 + 2 + 32 + 64) 32) =
             (PublicKey_toBuffer (signer (sigs ! i)), signature (sigs ! i), message (sigs ! i))"
    if i: "i < length sigs" for i
  proof -
    have vi: "length (signature (sigs ! i)) = 64" "length (message (sigs ! i)) = 32"
      using v i by simp_all
    note f = entry_fields[OF lay(3)[OF i] vi]
    have a96: "i * 128 + length sigs * 14 + 2 + 32 + 64 = i * 128 + length sigs * 14 + 2 + 96"
      by simp
    show ?thesis unfolding a96 using f by simp
  qed
  have "readEntries blob =
          map (\<lambda>i. (bytesAt blob (i * 128 + length sigs * 14 + 2) 32,
                     bytesAt blob (i * 128 + length sigs * 14 + 2 + 32) 64,
                     bytesAt blob (i * 128 + length sigs * 14 + 2 + 32 + 64) 32))
              [0..<length sigs]"
    by (simp add: readEntries_def Let_def cnt)
  also have "\<dots> = map (\<lambda>i. (PublicKey_toBuffer (signer (sigs ! i)), signature (sigs ! i),
                            message (sigs ! i))) [0..<length sigs]"
  proof (rule map_cong[OF refl])
    fix i assume "i \<in> set [0..<length sigs]"
    then have "i < length sigs" by simp
    then show "(bytesAt blob (i * 128 + length sigs * 14 + 2) 32,
                bytesAt blob (i * 128 + length sigs * 14 + 2 + 32) 64,
                bytesAt blob (i * 128 + length sigs * 14 + 2 + 32 + 64) 32) =
               (PublicKey_toBuffer (signer (sigs ! i)), signature (sigs ! i), message (sigs ! i))"
      by (rule ent)
  qed
  also have "\<dots> = map (\<lambda>e. (PublicKey_toBuffer (signer e), signature e, message e))
                      (map (\<lambda>i. sigs ! i) [0..<length sigs])"
    by (simp add: comp_def)
  also have "\<dots> = map (\<lambda>e. (PublicKey_toBuffer (signer e), signature e, message e)) sigs"
    by (simp only: map_nth)
  finally show ?thesis using cf by simp
qed

theorem readEntries_createSignatureVerificationInstruction_witness:
  "\<exists>ins. createSignatureVerificationInstruction
            [\<lparr>signer = 1, signature = replicate 64 2, message = replicate 32 3\<rparr>,
             \<lparr>signer = 4, signature = replicate 64 5, message = replicate 32 6\<rparr>] = Inr ins \<and>
         readEntries (data ins) =
           [(PublicKey_toBuffer 1, replicate 64 2, replicate 32 3),
            (PublicKey_toBuffer 4, replicate 64 5, replicate 32 6)]"
  using readEntries_createSignatureVerificationInstruction
          [of "[\<lparr>signer = 1, signature = replicate 64 2, message = replicate 32 3\<rparr>,
                \<lparr>signer = 4, signature = replicate 64 5, message = replicate 32 6\<rparr>]"]
  by simp

lemma bindE_assoc: "bindE (bindE m f) g = bindE m (\<lambda>x. bindE (f x) g)"
  by (cases m) simp_all

lemma writeSignatures_append:
  "writeSignatures (xs @ ys) i start buf =
     bindE (writeSignatures xs i start buf) (writeSignatures ys (i + length xs) start)"
  by (induction xs arbitrary: i buf) (simp_all add: bindE_def split: sum.splits)

lemma writeSignature_bad:
  assumes "length (signature e) \<noteq> 64 \<or> length (message e) \<noteq> 32"
  shows "writeSignature e i start buf =
           Inl (if length (signature e) \<noteq> 64 then SignatureSizeError else MessageSizeError)"
  using assms by (simp add: writeSignature_def)

lemma writeSignature_valid:
  assumes "length (signature e) = 64" and "length (message e) = 32"
    and "i * 128 + start + 96 \<le> 65535"
  shows "\<exists>b. writeSignature e i start buf = Inr b"
proof -
  have "\<exists>d. SignatureStructure_toBuffer (SignatureStructure_new i start) = Inr d"
    using assms(3) SignatureStructure_toBuffer_ok[of "SignatureStructure_new i start"]
    by (simp add: SignatureStructure_new_def Let_def)
  then obtain d where "SignatureStructure_toBuffer (SignatureStructure_new i start) = Inr d" ..
  then show ?thesis using assms(1,2) by (simp add: writeSignature_def Let_def)
qed

lemma writeSignatures_valid:
  assumes "\<forall>e\<in>set es. length (signature e) = 64 \<and> length (message e) = 32"
    and "(i + length es) * 128 + start \<le> 65536"
  shows "\<exists>b. writeSignatures es i start buf = Inr b"
  using assms
proof (induction es arbitrary: i buf)
  case Nil
  then show ?case by simp
next
  case (Cons e es)
  have "\<exists>b. writeSignature e i start buf = Inr b"
    using Cons.prems by (intro writeSignature_valid) simp_all
  then obtain b where b: "writeSignature e i start buf = Inr b" ..
  have "\<exists>b'. writeSignatures es (Suc i) start b = Inr b'"
    using Cons.prems by (intro Cons.IH) simp_all
  then show ?case by (simp add: b)
qed

lemma createSignatureVerificationInstruction_first_bad:
  assumes N: "length (pre @ e # post) \<le> 255"
    and pre: "\<forall>x\<in>set pre. length (signature x) = 64 \<and> length (message x) = 32"
    and bad: "length (signature e) \<noteq> 64 \<or> length (message e) \<noteq> 32"
  shows "createSignatureVerificationInstruction (pre @ e # post) =
           Inl (if length (signature e) \<noteq> 64 then SignatureSizeError else MessageSizeError)"
proof -
  let ?sigs = "pre @ e # post"
  let ?start = "length ?sigs * 14 + 2"
  let ?buf = "(Buffer_alloc (length ?sigs * 142 + 2))[0 := word_of_nat (length ?sigs)]"
  have w8: "writeUInt8 (length ?sigs) 0 (Buffer_alloc (length ?sigs * 142 + 2)) = Inr ?buf"
    using N by (simp add: writeUInt8_def Buffer_alloc_def)
  have "\<exists>b. writeSignatures pre 0 ?start ?buf = Inr b"
    using N pre by (intro writeSignatures_valid) simp_all
  then obtain b where b: "writeSignatures pre 0 ?start ?buf = Inr b" ..
  have loop: "writeSignatures ?sigs 0 ?start ?buf =
          Inl (if length (signature e) \<noteq> 64 then SignatureSizeError else MessageSizeError)"
    by (simp only: writeSignatures_append b bindE_Inr writeSignatures.simps
        writeSignature_bad[OF bad] bindE_Inl)
  show ?thesis
    unfolding createSignatureVerificationInstruction_def Let_def
    using w8 loop by simp
qed

text \<open>
  Claim C6 (as amended).  For a list of at most 255 entries with an entry whose signature
  is not 64 bytes or whose message is not 32 bytes, the builder returns no instruction: it
  fails with the size error of the first such entry.  The size checks of an entry come
  before its offsets are computed or written: whatever the index, the start offset and
  the buffer, the loop body fails on such an entry with its size error.
\<close>

theorem createSignatureVerificationInstruction_rejects_bad_size:
  assumes N: "length sigs \<le> 255"
    and bad: "\<exists>e\<in>set sigs. length (signature e) \<noteq> 64 \<or> length (message e) \<noteq> 32"
  shows "\<exists>pre e post. sigs = pre @ e # post \<and>
           (\<forall>x\<in>set pre. length (signature x) = 64 \<and> length (message x) = 32) \<and>
           (length (signature e) \<noteq> 64 \<or> length (message e) \<noteq> 32) \<and>
           createSignatureVerificationInstruction sigs =
             Inl (if length (signature e) \<noteq> 64 then SignatureSizeError else MessageSizeError) \<and>
           (\<forall>i start buf. writeSignature e i start buf =
             Inl (if length (signature e) \<noteq> 64 then SignatureSizeError else MessageSizeError))"
proof -
  from split_list_first_prop[OF bad]
  obtain pre e post where s: "sigs = pre @ e # post"
    and e: "length (signature e) \<noteq> 64 \<or> length (message e) \<noteq> 32"
    and p: "\<forall>x\<in>set pre. \<not> (length (signature x) \<noteq> 64 \<or> length (message x) \<noteq> 32)"
    by blast
  from p have p': "\<forall>x\<in>set pre. length (signature x) = 64 \<and> length (message x) = 32"
    by simp
  have c: "createSignatureVerificationInstruction sigs =
             Inl (if length (signature e) \<noteq> 64 then SignatureSizeError else MessageSizeError)"
    unfolding s using N[unfolded s] p' e
    by (rule createSignatureVerificationInstruction_first_bad)
  have w: "\<forall>i start buf. writeSignature e i start buf =
             Inl (if length (signature e) \<noteq> 64 then SignatureSizeError else MessageSizeError)"
    using writeSignature_bad[OF e] by simp
  from s p' e c w show ?thesis by blast
qed

theorem createSignatureVerificationInstruction_rejects_bad_size_witness:
  "createSignatureVerificationInstruction
     [\<lparr>signer = 1, signature = replicate 64 2, message = replicate 32 3\<rparr>,
      \<lparr>signer = 4, signature = replicate 64 5, message = replicate 31 6\<rparr>] = Inl MessageSizeError"
proof -
  let ?a = "\<lparr>signer = 1, signature = replicate 64 2, message = replicate 32 3\<rparr>"
  let ?b = "\<lparr>signer = 4, signature = replicate 64 5, message = replicate 31 6\<rparr>"
  from createSignatureVerificationInstruction_rejects_bad_size[of "[?a, ?b]"]
  obtain pre e post where s: "[?a, ?b] = pre @ e # post"
    and p: "\<forall>x\<in>set pre. length (signature x) = 64 \<and> length (message x) = 32"
    and e: "length (signature e) \<noteq> 64 \<or> length (message e) \<noteq> 32"
    and c: "createSignatureVerificationInstruction [?a, ?b] =
             Inl (if length (signature e) \<noteq> 64 then SignatureSizeError else MessageSizeError)"
    by auto
  from s e have "e = ?b"
    by (cases pre; cases "tl pre") (auto simp: Cons_eq_append_conv)
  with c show ?thesis by simp
qed

text \<open>
  With 256 entries the count no longer fits the first byte: \<open>writeUInt8\<close> raises its range
  error before the loop looks at any entry, whatever the entries' sizes.
\<close>

theorem createSignatureVerificationInstruction_256_counterexample:
  "length (signature \<lparr>signer = 0, signature = [], message = []\<rparr>) \<noteq> 64 \<and>
   createSignatureVerificationInstruction
     (replicate 256 \<lparr>signer = 0, signature = [], message = []\<rparr>) = Inl RangeError"
  by (simp add: createSignatureVerificationInstruction_def writeUInt8_def Let_def)

text \<open>
  Claim C10.  \<open>Collateral.getWithdrawMessage\<close> and \<open>Coordinator.getWithdrawMessage\<close> return
  exactly 32 bytes for every input, so an entry whose message is such a digest never fails
  the message-size check of the instruction builder.
\<close>

theorem getWithdrawMessage_32_bytes:
  "length (Collateral_getWithdrawMessage K collateral sender receiver asset withdraw salt nonce) = 32 \<and>
   length (Coordinator_getWithdrawMessage K collateral coord sender receiver asset withdraw nonce) = 32 \<and>
   writeSignature \<lparr>signer = k, signature = sg,
       message = Collateral_getWithdrawMessage K collateral sender receiver asset withdraw salt nonce\<rparr>
     i start buf \<noteq> Inl MessageSizeError \<and>
   writeSignature \<lparr>signer = k, signature = sg,
       message = Coordinator_getWithdrawMessage K collateral coord sender receiver asset withdraw nonce\<rparr>
     i start buf \<noteq> Inl MessageSizeError"
proof -
  have ne: "writeSignature \<lparr>signer = k, signature = sg, message = m\<rparr> i start buf
              \<noteq> Inl MessageSizeError" if "length m = 32" for m
  proof (cases "length sg = 64")
    case True
    show ?thesis
      using that True
      by (cases "SignatureStructure_toBuffer (SignatureStructure_new i start)")
         (auto simp: writeSignature_def Let_def SignatureStructure_toBuffer_def
            writeUInt16LE_def bindE_def split: if_splits sum.splits)
  next
    case False
    then show ?thesis by (simp add: writeSignature_def)
  qed
  show ?thesis
    by (simp add: length_Collateral_getWithdrawMessage length_Coordinator_getWithdrawMessage ne)
qed

lemma digest_bytes_0: "digest_bytes 0 = replicate 32 0"
  by (simp add: digest_bytes_def be_bytes_def map_replicate_const)

text \<open>
  Claim C7 (as amended).  The message codecs validate nothing and never fail: for every
  input both return the digest bytes of the hash of the hex-decoded concatenation, 32
  bytes.  A numeric field is encoded in exactly its declared width only when it fits
  (8 digits exactly for a nonce below \<open>2^32\<close>, 16 digits exactly for an amount or expiry
  below \<open>2^64\<close>; a larger value gets more digits), a salt of \<open>k\<close> bytes is encoded as \<open>2 k\<close>
  digits whatever \<open>k\<close> is, and an address is always encoded as 64 digits.
\<close>

theorem message_codecs_never_fail:
  "(length (encodeUInt32 nonce) = 8 \<longleftrightarrow> nonce < 2 ^ 32) \<and>
   (length (encodeUInt64 (amountOfAsset withdraw)) = 16 \<longleftrightarrow> amountOfAsset withdraw < 2 ^ 64) \<and>
   (length (encodeUInt64 (signatureExpirationTime withdraw)) = 16 \<longleftrightarrow>
      signatureExpirationTime withdraw < 2 ^ 64) \<and>
   length (encodeBytes (Uint8Array_from salt)) = 2 * length salt \<and>
   length (encodeAddress collateral) = 64 \<and>
   Collateral_getWithdrawMessage K collateral sender receiver asset withdraw salt nonce =
     digest_bytes (K (Hex_parse
       (Collateral_encode @
        Collateral_domainSeparatorEncode K ''Collateral'' ''2'' 900 collateral (Uint8Array_from salt) @
        Collateral_encodeWithdrawMessage K collateral sender receiver asset withdraw nonce))) \<and>
   Coordinator_getWithdrawMessage K collateral coord sender receiver asset withdraw nonce =
     digest_bytes (K (Hex_parse
       (Coordinator_encode @
        Coordinator_domainSeparatorEncode K ''Coordinator'' ''2'' 900 coord
          (Uint8Array_from (coordinatorSignatureSalt withdraw)) @
        Coordinator_encodeWithdrawMessage K collateral sender receiver asset withdraw nonce))) \<and>
   length (Collateral_getWithdrawMessage K collateral sender receiver asset withdraw salt nonce) = 32 \<and>
   length (Coordinator_getWithdrawMessage K collateral coord sender receiver asset withdraw nonce) = 32"
  by (simp add: encodeUInt32_width encodeUInt64_width encodeBytes_eq length_Hex_stringify
      Uint8Array_from_def length_encodeAddress Collateral_getWithdrawMessage_def
      Coordinator_getWithdrawMessage_def Buffer_from_hex_keccak256Hex length_digest_bytes)

text \<open>
  A nonce of \<open>2^32\<close>, an amount and an expiry of \<open>2^64\<close> and an empty salt are encoded (in 9,
  17 and 0 digits) and a digest is returned for them.
\<close>

theorem message_codecs_oversized_counterexample:
  "encodeUInt32 4294967296 = ''100000000'' \<and>
   encodeUInt64 18446744073709551616 = ''10000000000000000'' \<and>
   encodeBytes (Uint8Array_from []) = [] \<and>
   Collateral_getWithdrawMessage (\<lambda>w. 0) 1 2 3 4
     \<lparr>amountOfAsset = 18446744073709551616, signatureExpirationTime = 18446744073709551616,
      coordinatorSignatureSalt = []\<rparr> [] 4294967296 = replicate 32 0 \<and>
   Coordinator_getWithdrawMessage (\<lambda>w. 0) 1 5 2 3 4
     \<lparr>amountOfAsset = 18446744073709551616, signatureExpirationTime = 18446744073709551616,
      coordinatorSignatureSalt = []\<rparr> 4294967296 = replicate 32 0"
proof -
  have a: "encodeUInt32 4294967296 = ''100000000''"
    by (simp add: encodeUInt32_def padStart_def toString16.simps hexdigit_def)
  have b: "encodeUInt64 18446744073709551616 = ''10000000000000000''"
    by (simp add: encodeUInt64_def padStart_def toString16.simps hexdigit_def)
  have c: "encodeBytes (Uint8Array_from []) = []"
    by (simp add: encodeBytes_def Uint8Array_from_def)
  show ?thesis
    unfolding Collateral_getWithdrawMessage_def Coordinator_getWithdrawMessage_def Let_def
      Buffer_from_hex_keccak256Hex
    by (simp only: a b c digest_bytes_0 simp_thms)
qed

section \<open>The withdrawal flow: approval record, failures, executors\<close>

lemma createSignatureVerificationInstruction_single:
  assumes "length sg = 64" and "length m = 32"
  shows "\<exists>ix. createSignatureVerificationInstruction [\<lparr>signer = k, signature = sg, message = m\<rparr>] = Inr ix"
  using createSignatureVerificationInstruction_closed_form
          [of "[\<lparr>signer = k, signature = sg, message = m\<rparr>]"] assms
  by simp

lemma list_all_neq: "list_all (\<lambda>s. s \<noteq> x) xs \<longleftrightarrow> x \<notin> set xs"
  by (auto simp: list_all_iff)

lemma await_remote_Inl:
  "answer = Inl reason \<Longrightarrow> await (remote c answer) f = ([c], Inl (RpcFailure reason))"
  by (simp add: await_def remote_def)

lemma await_remote_Inr:
  "answer = Inr x \<Longrightarrow> await (remote c answer) f = (c # fst (f x), snd (f x))"
  by (simp add: await_def remote_def split: prod.splits)

lemma await_liftE_Inl: "await (liftE (Inl e)) f = ([], Inl e)"
  by (simp add: await_def liftE_def)

lemma await_liftE_Inr: "await (liftE (Inr x)) f = f x"
  by (simp add: await_def liftE_def split: prod.splits)

text \<open>The outcomes of \<open>submitCollateralSignature\<close>, case by case.\<close>

lemma submitCollateralSignature_skip:
  assumes addr: "addr = Collateral_generateWithdrawCollateralPDA (sha3 env)
            (findProgramAddressSync env) collateralAddress (publicKey sender) recipientAddress
            mintAddress withdrawRequest nonce (mainProgramId env)"
    and fetch: "fetchNullableCollateralAdminSignatures env addr = Inr (Some a)"
    and mem: "publicKey sender \<in> set (signers a)"
  shows "submitCollateralSignature env sender recipientAddress mintAddress withdrawRequest nonce
           collateralAddress = ([FetchNullableCollateralAdminSignatures addr], Inr addr)"
  unfolding submitCollateralSignature_def Let_def addr[symmetric]
  using fetch mem
  by (simp add: await_remote_Inr list_all_neq resolve_def)

lemma submitCollateralSignature_submit:
  assumes addr: "addr = Collateral_generateWithdrawCollateralPDA (sha3 env)
            (findProgramAddressSync env) collateralAddress (publicKey sender) recipientAddress
            mintAddress withdrawRequest nonce (mainProgramId env)"
    and msg: "msg = Collateral_getWithdrawMessage (sha3 env) collateralAddress (publicKey sender)
            recipientAddress mintAddress withdrawRequest (randomBytes32 env) nonce"
    and fetch: "fetchNullableCollateralAdminSignatures env addr = Inr acct"
    and need: "acct = None \<or> (\<exists>a. acct = Some a \<and> publicKey sender \<notin> set (signers a))"
    and ix: "createSignatureVerificationInstruction
               [\<lparr>signer = publicKey sender,
                 signature = nacl_sign_detached env msg (secretKey sender),
                 message = msg\<rparr>] = Inr ix"
    and tx: "tx = [VerifyIx ix,
                   SubmitSignaturesIx
                     \<lparr>ss_salts = [randomBytes32 env],
                      ss_targetNonce = nonce,
                      ss_sender = publicKey sender,
                      ss_receiver = recipientAddress,
                      ss_asset = mintAddress,
                      ss_withdrawRequest = withdrawRequest,
                      ss_collateral = collateralAddress,
                      ss_collateralAdminSignatures = addr,
                      ss_rentPayer = publicKey sender\<rparr>]"
  shows "submitCollateralSignature env sender recipientAddress mintAddress withdrawRequest nonce
           collateralAddress =
         ([FetchNullableCollateralAdminSignatures addr, SendAndConfirmTransaction tx [sender]],
          case sendAndConfirmTransaction env tx [sender] of
            Inl reason \<Rightarrow> Inl (RpcFailure reason)
          | Inr h \<Rightarrow> Inr addr)"
  unfolding submitCollateralSignature_def Let_def addr[symmetric] msg[symmetric]
  using fetch need ix
  by (cases "sendAndConfirmTransaction env tx [sender]")
     (auto simp: await_remote_Inr await_remote_Inl list_all_neq resolve_def await_liftE_Inr
        tx[symmetric])

lemma submitCollateralSignature_builder_fails:
  assumes addr: "addr = Collateral_generateWithdrawCollateralPDA (sha3 env)
            (findProgramAddressSync env) collateralAddress (publicKey sender) recipientAddress
            mintAddress withdrawRequest nonce (mainProgramId env)"
    and msg: "msg = Collateral_getWithdrawMessage (sha3 env) collateralAddress (publicKey sender)
            recipientAddress mintAddress withdrawRequest (randomBytes32 env) nonce"
    and fetch: "fetchNullableCollateralAdminSignatures env addr = Inr acct"
    and need: "acct = None \<or> (\<exists>a. acct = Some a \<and> publicKey sender \<notin> set (signers a))"
    and ix: "createSignatureVerificationInstruction
               [\<lparr>signer = publicKey sender,
                 signature = nacl_sign_detached env msg (secretKey sender),
                 message = msg\<rparr>] = Inl e"
  shows "submitCollateralSignature env sender recipientAddress mintAddress withdrawRequest nonce
           collateralAddress = ([FetchNullableCollateralAdminSignatures addr], Inl e)"
  unfolding submitCollateralSignature_def Let_def addr[symmetric] msg[symmetric]
  using fetch need ix
  by (auto simp: await_remote_Inr list_all_neq await_liftE_Inl)

lemma submitCollateralSignature_fetch_fails:
  assumes addr: "addr = Collateral_generateWithdrawCollateralPDA (sha3 env)
            (findProgramAddressSync env) collateralAddress (publicKey sender) recipientAddress
            mintAddress withdrawRequest nonce (mainProgramId env)"
    and fetch: "fetchNullableCollateralAdminSignatures env addr = Inl reason"
  shows "submitCollateralSignature env sender recipientAddress mintAddress withdrawRequest nonce
           collateralAddress = ([FetchNullableCollateralAdminSignatures addr], Inl (RpcFailure reason))"
  unfolding submitCollateralSignature_def Let_def addr[symmetric]
  using fetch by (simp add: await_remote_Inl)

lemma submitCollateralSignature_outcomes:
  fixes env :: Env and sender :: Keypair and recipientAddress mintAddress collateralAddress :: PublicKey
    and withdrawRequest :: WithdrawCollateral and nonce :: nat
  defines "addr \<equiv> Collateral_generateWithdrawCollateralPDA (sha3 env)
            (findProgramAddressSync env) collateralAddress (publicKey sender) recipientAddress
            mintAddress withdrawRequest nonce (mainProgramId env)"
  obtains (fetch_failed) reason where
      "submitCollateralSignature env sender recipientAddress mintAddress withdrawRequest nonce
         collateralAddress = ([FetchNullableCollateralAdminSignatures addr], Inl (RpcFailure reason))"
  | (skipped)
      "submitCollateralSignature env sender recipientAddress mintAddress withdrawRequest nonce
         collateralAddress = ([FetchNullableCollateralAdminSignatures addr], Inr addr)"
  | (builder_failed) e where
      "submitCollateralSignature env sender recipientAddress mintAddress withdrawRequest nonce
         collateralAddress = ([FetchNullableCollateralAdminSignatures addr], Inl e)"
  | (submitted) tx where
      "submitCollateralSignature env sender recipientAddress mintAddress withdrawRequest nonce
         collateralAddress =
       ([FetchNullableCollateralAdminSignatures addr, SendAndConfirmTransaction tx [sender]],
        case sendAndConfirmTransaction env tx [sender] of
          Inl reason \<Rightarrow> Inl (RpcFailure reason)
        | Inr h \<Rightarrow> Inr addr)"
proof (cases "fetchNullableCollateralAdminSignatures env addr")
  case (Inl reason)
  note addr = addr_def[THEN meta_eq_to_obj_eq]
  from submitCollateralSignature_fetch_fails[OF addr Inl] show ?thesis by (rule fetch_failed)
next
  case (Inr acct)
  note addr = addr_def[THEN meta_eq_to_obj_eq]
  define msg where "msg = Collateral_getWithdrawMessage (sha3 env) collateralAddress
      (publicKey sender) recipientAddress mintAddress withdrawRequest (randomBytes32 env) nonce"
  show ?thesis
  proof (cases "acct = None \<or> (\<exists>a. acct = Some a \<and> publicKey sender \<notin> set (signers a))")
    case need: True
    show ?thesis
    proof (cases "createSignatureVerificationInstruction
               [\<lparr>signer = publicKey sender,
                 signature = nacl_sign_detached env msg (secretKey sender),
                 message = msg\<rparr>]")
      case (Inl e)
      from submitCollateralSignature_builder_fails[OF addr msg_def Inr need Inl]
      show ?thesis by (rule builder_failed)
    next
      case ix: (Inr ix)
      from submitCollateralSignature_submit[OF addr msg_def Inr need ix refl]
      show ?thesis by (rule submitted)
    qed
  next
    case False
    then obtain a where "acct = Some a" and "publicKey sender \<in> set (signers a)"
      by (cases acct) auto
    with Inr submitCollateralSignature_skip[OF addr] show ?thesis
      by (intro skipped) simp
  qed
qed

text \<open>
  Claim C5.  If the approval record fetched at the derived address exists and lists the
  sender, \<open>submitCollateralSignature\<close> makes no further call after the fetch (no
  transaction is built or sent) and returns the derived address.  With a 64-byte
  signature from \<open>nacl.sign.detached\<close>, a transaction is submitted exactly when the
  record is absent or does not list the sender.
\<close>

theorem submitCollateralSignature_idempotent:
  assumes addr: "addr = Collateral_generateWithdrawCollateralPDA (sha3 env)
            (findProgramAddressSync env) collateralAddress (publicKey sender) recipientAddress
            mintAddress withdrawRequest nonce (mainProgramId env)"
    and msg: "msg = Collateral_getWithdrawMessage (sha3 env) collateralAddress (publicKey sender)
            recipientAddress mintAddress withdrawRequest (randomBytes32 env) nonce"
    and fetch: "fetchNullableCollateralAdminSignatures env addr = Inr acct"
  shows "((\<exists>a. acct = Some a \<and> publicKey sender \<in> set (signers a)) \<longrightarrow>
            submitCollateralSignature env sender recipientAddress mintAddress withdrawRequest
              nonce collateralAddress = ([FetchNullableCollateralAdminSignatures addr], Inr addr)) \<and>
         (length (nacl_sign_detached env msg (secretKey sender)) = 64 \<longrightarrow>
            ((\<exists>tx ks. SendAndConfirmTransaction tx ks \<in>
                set (fst (submitCollateralSignature env sender recipientAddress mintAddress
                            withdrawRequest nonce collateralAddress))) \<longleftrightarrow>
             (acct = None \<or> (\<exists>a. acct = Some a \<and> publicKey sender \<notin> set (signers a)))))"
proof (intro conjI impI)
  assume "\<exists>a. acct = Some a \<and> publicKey sender \<in> set (signers a)"
  then obtain a where a: "acct = Some a" "publicKey sender \<in> set (signers a)" by blast
  show "submitCollateralSignature env sender recipientAddress mintAddress withdrawRequest
          nonce collateralAddress = ([FetchNullableCollateralAdminSignatures addr], Inr addr)"
    using submitCollateralSignature_skip[OF addr fetch[unfolded a(1)] a(2)] .
next
  assume len: "length (nacl_sign_detached env msg (secretKey sender)) = 64"
  let ?R = "submitCollateralSignature env sender recipientAddress mintAddress withdrawRequest
              nonce collateralAddress"
  show "(\<exists>tx ks. SendAndConfirmTransaction tx ks \<in> set (fst ?R)) \<longleftrightarrow>
        (acct = None \<or> (\<exists>a. acct = Some a \<and> publicKey sender \<notin> set (signers a)))"
  proof (cases "acct = None \<or> (\<exists>a. acct = Some a \<and> publicKey sender \<notin> set (signers a))")
    case True
    have "length msg = 32" by (simp add: msg length_Collateral_getWithdrawMessage)
    from createSignatureVerificationInstruction_single[OF len this]
    obtain ix where ix: "createSignatureVerificationInstruction
               [\<lparr>signer = publicKey sender,
                 signature = nacl_sign_detached env msg (secretKey sender),
                 message = msg\<rparr>] = Inr ix" ..
    from submitCollateralSignature_submit[OF addr msg fetch True ix refl]
    show ?thesis using True by auto
  next
    case False
    then obtain a where a: "acct = Some a" "publicKey sender \<in> set (signers a)"
      by (cases acct) auto
    from submitCollateralSignature_skip[OF addr fetch[unfolded a(1)] a(2)]
    show ?thesis using False by simp
  qed
qed

lemma addr_env0 [simp]:
  "Collateral_generateWithdrawCollateralPDA K (\<lambda>seeds pid. 9) c s r a w n p = 9"
  by (simp add: Collateral_generateWithdrawCollateralPDA_def
      Collateral_generateAdminSignaturePDA_def Let_def)

theorem submitCollateralSignature_idempotent_witness:
  "submitCollateralSignature
     (env0\<lparr>fetchNullableCollateralAdminSignatures := (\<lambda>a. Inr (Some \<lparr>signers = [2, 1]\<rparr>))\<rparr>)
     sender0 2 3 request0 0 4 = ([FetchNullableCollateralAdminSignatures 9], Inr 9) \<and>
   (\<exists>tx ks. SendAndConfirmTransaction tx ks \<in>
      set (fst (submitCollateralSignature env0 sender0 2 3 request0 0 4)))"
proof
  let ?env = "env0\<lparr>fetchNullableCollateralAdminSignatures := (\<lambda>a. Inr (Some \<lparr>signers = [2, 1]\<rparr>))\<rparr>"
  show "submitCollateralSignature ?env sender0 2 3 request0 0 4 =
          ([FetchNullableCollateralAdminSignatures 9], Inr 9)"
    using submitCollateralSignature_idempotent[of 9 ?env 4 sender0 2 3 request0 0 _
        "Some \<lparr>signers = [2, 1]\<rparr>", OF _ refl]
    by (simp add: env0_def sender0_def)
  show "\<exists>tx ks. SendAndConfirmTransaction tx ks \<in>
          set (fst (submitCollateralSignature env0 sender0 2 3 request0 0 4))"
    using submitCollateralSignature_idempotent[of 9 env0 4 sender0 2 3 request0 0 _ None, OF _ refl]
    by (simp add: env0_def sender0_def)
qed

lemma submitCollateralSignature_send_failure:
  assumes sent: "SendAndConfirmTransaction tx ks \<in>
      set (fst (submitCollateralSignature env sender recipientAddress mintAddress
                  withdrawRequest nonce collateralAddress))"
    and failed: "sendAndConfirmTransaction env tx ks = Inl reason"
  shows "snd (submitCollateralSignature env sender recipientAddress mintAddress
                withdrawRequest nonce collateralAddress) = Inl (RpcFailure reason)"
proof -
  let ?addr = "Collateral_generateWithdrawCollateralPDA (sha3 env)
            (findProgramAddressSync env) collateralAddress (publicKey sender) recipientAddress
            mintAddress withdrawRequest nonce (mainProgramId env)"
  show ?thesis
  proof (rule submitCollateralSignature_outcomes[where env = env and sender = sender
        and recipientAddress = recipientAddress and mintAddress = mintAddress
        and withdrawRequest = withdrawRequest and nonce = nonce
        and collateralAddress = collateralAddress])
    fix r
    assume "submitCollateralSignature env sender recipientAddress mintAddress withdrawRequest nonce
         collateralAddress = ([FetchNullableCollateralAdminSignatures ?addr], Inl (RpcFailure r))"
    with sent show ?thesis by simp
  next
    assume "submitCollateralSignature env sender recipientAddress mintAddress withdrawRequest nonce
         collateralAddress = ([FetchNullableCollateralAdminSignatures ?addr], Inr ?addr)"
    with sent show ?thesis by simp
  next
    fix e
    assume "submitCollateralSignature env sender recipientAddress mintAddress withdrawRequest nonce
         collateralAddress = ([FetchNullableCollateralAdminSignatures ?addr], Inl e)"
    with sent show ?thesis by simp
  next
    fix tx'
    assume submitted: "submitCollateralSignature env sender recipientAddress mintAddress
         withdrawRequest nonce collateralAddress =
       ([FetchNullableCollateralAdminSignatures ?addr, SendAndConfirmTransaction tx' [sender]],
        case sendAndConfirmTransaction env tx' [sender] of
          Inl reason \<Rightarrow> Inl (RpcFailure reason)
        | Inr h \<Rightarrow> Inr ?addr)"
    with sent have "tx = tx'" "ks = [sender]" by simp_all
    with submitted failed show ?thesis by simp
  qed
qed

lemma submitCollateralSignature_env0_send_fails:
  "\<exists>tx. submitCollateralSignature (env0\<lparr>sendAndConfirmTransaction := (\<lambda>tx ks. Inl reason)\<rparr>)
          sender0 2 3 request0 0 4 =
      ([FetchNullableCollateralAdminSignatures 9, SendAndConfirmTransaction tx [sender0]],
       Inl (RpcFailure reason))"
proof -
  let ?env = "env0\<lparr>sendAndConfirmTransaction := (\<lambda>tx ks. Inl reason)\<rparr>"
  define msg where "msg = Collateral_getWithdrawMessage (sha3 ?env) 4 (publicKey sender0)
            2 3 request0 (randomBytes32 ?env) 0"
  have addr: "9 = Collateral_generateWithdrawCollateralPDA (sha3 ?env)
            (findProgramAddressSync ?env) 4 (publicKey sender0) 2 3 request0 0 (mainProgramId ?env)"
    by (simp add: env0_def)
  have fetch: "fetchNullableCollateralAdminSignatures ?env 9 = Inr None"
    by (simp add: env0_def)
  have "length (nacl_sign_detached ?env msg (secretKey sender0)) = 64"
    by (simp add: env0_def)
  moreover have "length msg = 32" by (simp add: msg_def length_Collateral_getWithdrawMessage)
  ultimately obtain ix where ix: "createSignatureVerificationInstruction
               [\<lparr>signer = publicKey sender0,
                 signature = nacl_sign_detached ?env msg (secretKey sender0),
                 message = msg\<rparr>] = Inr ix"
    using createSignatureVerificationInstruction_single by blast
  from submitCollateralSignature_submit[OF addr msg_def fetch _ ix refl]
  show ?thesis by (simp add: env0_def)
qed

lemma createSignatureVerificationInstruction_single_error:
  assumes "length m = 32"
  shows "createSignatureVerificationInstruction [\<lparr>signer = k, signature = sg, message = m\<rparr>]
           \<noteq> Inl NoExecutorsFound"
proof (cases "length sg = 64")
  case True
  from createSignatureVerificationInstruction_single[OF True assms, of k]
  show ?thesis by auto
next
  case False
  have "createSignatureVerificationInstruction ([] @ \<lparr>signer = k, signature = sg, message = m\<rparr> # [])
          = Inl SignatureSizeError"
    using createSignatureVerificationInstruction_first_bad
            [of "[]" "\<lparr>signer = k, signature = sg, message = m\<rparr>" "[]"] False
    by simp
  then show ?thesis by simp
qed

lemma withdrawWithCoordinator_outcome:
  assumes fetch: "fetchCoordinator env (coordinator collateralAccount) = Inr coord"
    and R: "R = withdrawWithCoordinator env collateral sender recipientAddress mintAddress
                  withdrawRequest coordinatorSignature collateralAccount collateralTokenAccount
                  destinationTokenAccount collateralSignatureAddress"
  shows "(snd R = Inl NoExecutorsFound \<longleftrightarrow>
            (executors coord = None \<or> executors coord = Some [])) \<and>
         (\<forall>e es. executors coord = Some (e # es) \<longrightarrow>
            R = (case createSignatureVerificationInstruction
                        [\<lparr>signer = e,
                          signature = Uint8Array_from coordinatorSignature,
                          message = Coordinator_getWithdrawMessage (sha3 env) collateral
                            (coordinator collateralAccount) (publicKey sender) recipientAddress
                            mintAddress withdrawRequest (adminFundsNonce collateralAccount)\<rparr>] of
                   Inl err \<Rightarrow> ([FetchCoordinator (coordinator collateralAccount)], Inl err)
                 | Inr ix \<Rightarrow>
                     (let tx = [VerifyIx ix,
                                WithdrawCollateralAssetIx
                                  \<lparr>wc_withdrawRequest = withdrawRequest,
                                   wc_sender = publicKey sender,
                                   wc_receiver = recipientAddress,
                                   wc_asset = mintAddress,
                                   wc_collateralTokenAccount = collateralTokenAccount,
                                   wc_receiverTokenAccount = destinationTokenAccount,
                                   wc_coordinator = coordinator collateralAccount,
                                   wc_collateral = collateral,
                                   wc_collateralAdminSignatures = collateralSignatureAddress\<rparr>]
                      in ([FetchCoordinator (coordinator collateralAccount),
                           SendAndConfirmTransaction tx [sender]],
                          case sendAndConfirmTransaction env tx [sender] of
                            Inl reason \<Rightarrow> Inl (RpcFailure reason)
                          | Inr h \<Rightarrow> Inr h))))"
proof -
  let ?msg = "Coordinator_getWithdrawMessage (sha3 env) collateral
                (coordinator collateralAccount) (publicKey sender) recipientAddress
                mintAddress withdrawRequest (adminFundsNonce collateralAccount)"
  let ?entry = "\<lambda>e. \<lparr>signer = e, signature = Uint8Array_from coordinatorSignature, message = ?msg\<rparr>"
  have none: "snd R = Inl NoExecutorsFound"
    if "executors coord = None \<or> executors coord = Some []"
    using that fetch unfolding R withdrawWithCoordinator_def
    by (auto simp: await_remote_Inr liftE_def)
  have some: "R = (case createSignatureVerificationInstruction [?entry e] of
                   Inl err \<Rightarrow> ([FetchCoordinator (coordinator collateralAccount)], Inl err)
                 | Inr ix \<Rightarrow>
                     (let tx = [VerifyIx ix,
                                WithdrawCollateralAssetIx
                                  \<lparr>wc_withdrawRequest = withdrawRequest,
                                   wc_sender = publicKey sender,
                                   wc_receiver = recipientAddress,
                                   wc_asset = mintAddress,
                                   wc_collateralTokenAccount = collateralTokenAccount,
                                   wc_receiverTokenAccount = destinationTokenAccount,
                                   wc_coordinator = coordinator collateralAccount,
                                   wc_collateral = collateral,
                                   wc_collateralAdminSignatures = collateralSignatureAddress\<rparr>]
                      in ([FetchCoordinator (coordinator collateralAccount),
                           SendAndConfirmTransaction tx [sender]],
                          case sendAndConfirmTransaction env tx [sender] of
                            Inl reason \<Rightarrow> Inl (RpcFailure reason)
                          | Inr h \<Rightarrow> Inr h)))"
    if ex: "executors coord = Some (e # es)" for e es
    using ex fetch unfolding R withdrawWithCoordinator_def Let_def
    by (cases "createSignatureVerificationInstruction [?entry e]")
       (simp_all add: await_def remote_def liftE_def split: sum.splits)
  have other: "snd R \<noteq> Inl NoExecutorsFound" if ex: "executors coord = Some (e # es)" for e es
  proof -
    have ne: "createSignatureVerificationInstruction [?entry e] \<noteq> Inl NoExecutorsFound"
      by (intro createSignatureVerificationInstruction_single_error
          length_Coordinator_getWithdrawMessage)
    show ?thesis
      unfolding some[OF ex] using ne
      by (cases "createSignatureVerificationInstruction [?entry e]")
         (auto simp: Let_def split: sum.splits)
  qed
  have iff: "snd R = Inl NoExecutorsFound \<longleftrightarrow>
            (executors coord = None \<or> executors coord = Some [])"
  proof (cases "executors coord")
    case None
    then show ?thesis using none by simp
  next
    case (Some ex)
    then show ?thesis using none other by (cases ex) auto
  qed
  from iff some show ?thesis by blast
qed


lemma snd_await:
  "snd (await m f) = (case snd m of Inl e \<Rightarrow> Inl e | Inr x \<Rightarrow> snd (f x))"
  by (cases m) (auto simp: await_def split: sum.splits prod.splits)

lemma snd_remote:
  "snd (remote c answer) = (case answer of Inl reason \<Rightarrow> Inl (RpcFailure reason) | Inr x \<Rightarrow> Inr x)"
  by (simp add: remote_def)

lemma Uint8Array_from_unat: "Uint8Array_from (map unat bs) = bs"
  by (induction bs) (simp_all add: Uint8Array_from_def)

lemma executeWithdrawal_reaches_coordinator:
  assumes bn: "expiration < 2 ^ 53" "amountInCents < 2 ^ 53"
    and req: "withdrawRequest = \<lparr>amountOfAsset = amountInCents,
                signatureExpirationTime = expiration,
                coordinatorSignatureSalt = map unat signatureSalt\<rparr>"
    and ca: "fetchCollateral env collateral = Inr collateralAccount"
    and ata: "getOrCreateAssociatedTokenAccount env sender mintAddress recipientAddress =
                Inr destinationTokenAccount"
    and sub: "snd (submitCollateralSignature env sender recipientAddress mintAddress
                withdrawRequest (adminFundsNonce collateralAccount) collateral) =
                Inr collateralSignatureAddress"
  shows "snd (executeWithdrawal env collateral depositAddress sender recipientAddress mintAddress
                expiration amountInCents signatureSalt signatureData) =
         snd (withdrawWithCoordinator env collateral sender recipientAddress mintAddress
                withdrawRequest (map unat signatureData) collateralAccount
                (getAssociatedTokenAddress env mintAddress depositAddress)
                destinationTokenAccount collateralSignatureAddress)"
  unfolding executeWithdrawal_def Let_def
  using bn ca ata sub
  by (simp add: snd_await snd_remote liftE_def BN_new_def req[symmetric])

text \<open>
  Claim C8.  When \<open>executeWithdrawal\<close> has fetched the coordinator account of the collateral
  account (the earlier steps having succeeded), it fails with the missing-executors error
  if and only if the executors list is missing or empty; otherwise the verification
  instruction for the coordinator signature is built with the first listed executor as
  its signer and submitted together with the withdrawal instruction.
\<close>

theorem executeWithdrawal_first_executor:
  assumes bn: "expiration < 2 ^ 53" "amountInCents < 2 ^ 53"
    and req: "withdrawRequest = \<lparr>amountOfAsset = amountInCents,
                signatureExpirationTime = expiration,
                coordinatorSignatureSalt = map unat signatureSalt\<rparr>"
    and ca: "fetchCollateral env collateral = Inr collateralAccount"
    and ata: "getOrCreateAssociatedTokenAccount env sender mintAddress recipientAddress =
                Inr destinationTokenAccount"
    and sub: "snd (submitCollateralSignature env sender recipientAddress mintAddress
                withdrawRequest (adminFundsNonce collateralAccount) collateral) =
                Inr collateralSignatureAddress"
    and fetch: "fetchCoordinator env (coordinator collateralAccount) = Inr coord"
  shows "(snd (executeWithdrawal env collateral depositAddress sender recipientAddress
                 mintAddress expiration amountInCents signatureSalt signatureData) =
            Inl NoExecutorsFound \<longleftrightarrow>
          (executors coord = None \<or> executors coord = Some [])) \<and>
         (\<forall>e es. executors coord = Some (e # es) \<longrightarrow>
            snd (executeWithdrawal env collateral depositAddress sender recipientAddress
                   mintAddress expiration amountInCents signatureSalt signatureData) =
              (case createSignatureVerificationInstruction
                      [\<lparr>signer = e,
                        signature = signatureData,
                        message = Coordinator_getWithdrawMessage (sha3 env) collateral
                          (coordinator collateralAccount) (publicKey sender) recipientAddress
                          mintAddress withdrawRequest (adminFundsNonce collateralAccount)\<rparr>] of
                 Inl err \<Rightarrow> Inl err
               | Inr ix \<Rightarrow>
                   (case sendAndConfirmTransaction env
                           [VerifyIx ix,
                            WithdrawCollateralAssetIx
                              \<lparr>wc_withdrawRequest = withdrawRequest,
                               wc_sender = publicKey sender,
                               wc_receiver = recipientAddress,
                               wc_asset = mintAddress,
                               wc_collateralTokenAccount =
                                 getAssociatedTokenAddress env mintAddress depositAddress,
                               wc_receiverTokenAccount = destinationTokenAccount,
                               wc_coordinator = coordinator collateralAccount,
                               wc_collateral = collateral,
                               wc_collateralAdminSignatures = collateralSignatureAddress\<rparr>]
                           [sender] of
                      Inl reason \<Rightarrow> Inl (RpcFailure reason)
                    | Inr h \<Rightarrow> Inr h)))"
proof -
  note reach = executeWithdrawal_reaches_coordinator[OF bn req ca ata sub]
  note out = withdrawWithCoordinator_outcome[OF fetch refl,
      of collateral sender recipientAddress mintAddress withdrawRequest "map unat signatureData"
         "getAssociatedTokenAddress env mintAddress depositAddress" destinationTokenAccount
         collateralSignatureAddress]
  have iff: "snd (executeWithdrawal env collateral depositAddress sender recipientAddress
                 mintAddress expiration amountInCents signatureSalt signatureData) =
            Inl NoExecutorsFound \<longleftrightarrow>
          (executors coord = None \<or> executors coord = Some [])"
    unfolding reach using out by blast
  have first: "snd (executeWithdrawal env collateral depositAddress sender recipientAddress
                   mintAddress expiration amountInCents signatureSalt signatureData) =
              (case createSignatureVerificationInstruction
                      [\<lparr>signer = e,
                        signature = signatureData,
                        message = Coordinator_getWithdrawMessage (sha3 env) collateral
                          (coordinator collateralAccount) (publicKey sender) recipientAddress
                          mintAddress withdrawRequest (adminFundsNonce collateralAccount)\<rparr>] of
                 Inl err \<Rightarrow> Inl err
               | Inr ix \<Rightarrow>
                   (case sendAndConfirmTransaction env
                           [VerifyIx ix,
                            WithdrawCollateralAssetIx
                              \<lparr>wc_withdrawRequest = withdrawRequest,
                               wc_sender = publicKey sender,
                               wc_receiver = recipientAddress,
                               wc_asset = mintAddress,
                               wc_collateralTokenAccount =
                                 getAssociatedTokenAddress env mintAddress depositAddress,
                               wc_receiverTokenAccount = destinationTokenAccount,
                               wc_coordinator = coordinator collateralAccount,
                               wc_collateral = collateral,
                               wc_collateralAdminSignatures = collateralSignatureAddress\<rparr>]
                           [sender] of
                      Inl reason \<Rightarrow> Inl (RpcFailure reason)
                    | Inr h \<Rightarrow> Inr h))"
    if ex: "executors coord = Some (e # es)" for e es
  proof -
    from out ex have "withdrawWithCoordinator env collateral sender recipientAddress mintAddress
                  withdrawRequest (map unat signatureData) collateralAccount
                  (getAssociatedTokenAddress env mintAddress depositAddress)
                  destinationTokenAccount collateralSignatureAddress =
        (case createSignatureVerificationInstruction
                        [\<lparr>signer = e,
                          signature = Uint8Array_from (map unat signatureData),
                          message = Coordinator_getWithdrawMessage (sha3 env) collateral
                            (coordinator collateralAccount) (publicKey sender) recipientAddress
                            mintAddress withdrawRequest (adminFundsNonce collateralAccount)\<rparr>] of
                   Inl err \<Rightarrow> ([FetchCoordinator (coordinator collateralAccount)], Inl err)
                 | Inr ix \<Rightarrow>
                     (let tx = [VerifyIx ix,
                                WithdrawCollateralAssetIx
                                  \<lparr>wc_withdrawRequest = withdrawRequest,
                                   wc_sender = publicKey sender,
                                   wc_receiver = recipientAddress,
                                   wc_asset = mintAddress,
                                   wc_collateralTokenAccount =
                                     getAssociatedTokenAddress env mintAddress depositAddress,
                                   wc_receiverTokenAccount = destinationTokenAccount,
                                   wc_coordinator = coordinator collateralAccount,
                                   wc_collateral = collateral,
                                   wc_collateralAdminSignatures = collateralSignatureAddress\<rparr>]
                      in ([FetchCoordinator (coordinator collateralAccount),
                           SendAndConfirmTransaction tx [sender]],
                          case sendAndConfirmTransaction env tx [sender] of
                            Inl reason \<Rightarrow> Inl (RpcFailure reason)
                          | Inr h \<Rightarrow> Inr h)))"
      by blast
    then show ?thesis
      unfolding reach
      by (simp add: Uint8Array_from_unat Let_def split: sum.splits)
  qed
  from iff first show ?thesis by blast
qed

lemma submitCollateralSignature_absent:
  assumes addr: "addr = Collateral_generateWithdrawCollateralPDA (sha3 env)
            (findProgramAddressSync env) collateralAddress (publicKey sender) recipientAddress
            mintAddress withdrawRequest nonce (mainProgramId env)"
    and fetch: "fetchNullableCollateralAdminSignatures env addr = Inr None"
    and len: "\<And>m. length (nacl_sign_detached env m (secretKey sender)) = 64"
    and send: "\<And>tx. sendAndConfirmTransaction env tx [sender] = Inr h"
  shows "snd (submitCollateralSignature env sender recipientAddress mintAddress withdrawRequest
                nonce collateralAddress) = Inr addr"
proof -
  define msg where "msg = Collateral_getWithdrawMessage (sha3 env) collateralAddress
      (publicKey sender) recipientAddress mintAddress withdrawRequest (randomBytes32 env) nonce"
  have "length msg = 32" by (simp add: msg_def length_Collateral_getWithdrawMessage)
  from createSignatureVerificationInstruction_single[OF len this]
  obtain ix where ix: "createSignatureVerificationInstruction
               [\<lparr>signer = publicKey sender,
                 signature = nacl_sign_detached env msg (secretKey sender),
                 message = msg\<rparr>] = Inr ix" ..
  from submitCollateralSignature_submit[OF addr msg_def fetch _ ix refl]
  show ?thesis by (simp add: send)
qed

theorem executeWithdrawal_first_executor_witness:
  "snd (executeWithdrawal (env0\<lparr>fetchCoordinator := (\<lambda>a. Inr \<lparr>executors = Some []\<rparr>)\<rparr>)
          4 10 sender0 2 3 1763066371 1000000 (replicate 32 0) (replicate 64 0))
     = Inl NoExecutorsFound \<and>
   snd (executeWithdrawal (env0\<lparr>fetchCoordinator := (\<lambda>a. Inr \<lparr>executors = None\<rparr>)\<rparr>)
          4 10 sender0 2 3 1763066371 1000000 (replicate 32 0) (replicate 64 0))
     = Inl NoExecutorsFound \<and>
   snd (executeWithdrawal env0 4 10 sender0 2 3 1763066371 1000000 (replicate 32 0)
          (replicate 64 0)) = Inr ''confirmed''"
proof (intro conjI)
  let ?ca = "\<lparr>adminFundsNonce = 0, coordinator = 3\<rparr>"
  let ?e1 = "env0\<lparr>fetchCoordinator := (\<lambda>a. Inr \<lparr>executors = Some []\<rparr>)\<rparr>"
  let ?e2 = "env0\<lparr>fetchCoordinator := (\<lambda>a. Inr \<lparr>executors = None\<rparr>)\<rparr>"
  have req: "request0 = \<lparr>amountOfAsset = 1000000, signatureExpirationTime = 1763066371,
                coordinatorSignatureSalt = map unat (replicate 32 (0::byte))\<rparr>"
    by (simp add: request0_def)
  have sub: "snd (submitCollateralSignature env sender0 2 3 request0 (adminFundsNonce ?ca) 4) = Inr 9"
    if "env = ?e1 \<or> env = ?e2 \<or> env = env0" for env
    using that
    by (intro submitCollateralSignature_absent[where h = "''confirmed''"])
       (auto simp: env0_def)
  show "snd (executeWithdrawal ?e1 4 10 sender0 2 3 1763066371 1000000 (replicate 32 0)
          (replicate 64 0)) = Inl NoExecutorsFound"
    using executeWithdrawal_first_executor[where env = ?e1 and collateralAccount = ?ca
        and coord = "\<lparr>executors = Some []\<rparr>" and destinationTokenAccount = 5
        and collateralSignatureAddress = 9, OF _ _ req _ _ sub]
    by (simp add: env0_def)
  show "snd (executeWithdrawal ?e2 4 10 sender0 2 3 1763066371 1000000 (replicate 32 0)
          (replicate 64 0)) = Inl NoExecutorsFound"
    using executeWithdrawal_first_executor[where env = ?e2 and collateralAccount = ?ca
        and coord = "\<lparr>executors = None\<rparr>" and destinationTokenAccount = 5
        and collateralSignatureAddress = 9, OF _ _ req _ _ sub]
    by (simp add: env0_def)
  have "length (replicate 64 (0::byte)) = 64" by simp
  moreover have "length (Coordinator_getWithdrawMessage (\<lambda>w. 0) 4 3 1 2 3 request0 0) = 32"
    by (rule length_Coordinator_getWithdrawMessage)
  ultimately obtain ix where ix: "createSignatureVerificationInstruction
            [\<lparr>signer = 7, signature = replicate 64 0,
               message = Coordinator_getWithdrawMessage (\<lambda>w. 0) 4 3 1 2 3 request0 0\<rparr>] = Inr ix"
    using createSignatureVerificationInstruction_single by blast
  show "snd (executeWithdrawal env0 4 10 sender0 2 3 1763066371 1000000 (replicate 32 0)
          (replicate 64 0)) = Inr ''confirmed''"
    using executeWithdrawal_first_executor[where env = env0 and collateralAccount = ?ca
        and coord = "\<lparr>executors = Some [7, 11]\<rparr>" and destinationTokenAccount = 5
        and collateralSignatureAddress = 9, OF _ _ req _ _ sub] ix
    by (simp add: env0_def sender0_def)
qed

lemma executeWithdrawal_submit_fails:
  assumes bn: "expiration < 2 ^ 53" "amountInCents < 2 ^ 53"
    and req: "withdrawRequest = \<lparr>amountOfAsset = amountInCents,
                signatureExpirationTime = expiration,
                coordinatorSignatureSalt = map unat signatureSalt\<rparr>"
    and ca: "fetchCollateral env collateral = Inr collateralAccount"
    and ata: "getOrCreateAssociatedTokenAccount env sender mintAddress recipientAddress =
                Inr destinationTokenAccount"
    and sub: "submitCollateralSignature env sender recipientAddress mintAddress
                withdrawRequest (adminFundsNonce collateralAccount) collateral = (cs, Inl e)"
  shows "executeWithdrawal env collateral depositAddress sender recipientAddress mintAddress
           expiration amountInCents signatureSalt signatureData =
         ([FetchCollateral collateral,
           GetOrCreateAssociatedTokenAccount sender mintAddress recipientAddress] @ cs, Inl e)"
  unfolding executeWithdrawal_def Let_def
  using bn ca ata sub
  by (simp add: await_def remote_def liftE_def BN_new_def req[symmetric])

text \<open>
  Claim C9 (as amended).  A failure of the approval-submission transaction is never
  treated as a success: whenever \<open>submitCollateralSignature\<close>, called by
  \<open>executeWithdrawal\<close>, has submitted a transaction and the submission failed with some
  reason, a duplicate approval included, \<open>submitCollateralSignature\<close> fails with exactly
  that reason, and so does \<open>executeWithdrawal\<close>, which makes no further call: the
  coordinator is not fetched and no withdrawal is submitted.  The failure reason is not
  inspected.
\<close>

theorem executeWithdrawal_approval_failure_surfaced:
  assumes bn: "expiration < 2 ^ 53" "amountInCents < 2 ^ 53"
    and req: "withdrawRequest = \<lparr>amountOfAsset = amountInCents,
                signatureExpirationTime = expiration,
                coordinatorSignatureSalt = map unat signatureSalt\<rparr>"
    and ca: "fetchCollateral env collateral = Inr collateralAccount"
    and ata: "getOrCreateAssociatedTokenAccount env sender mintAddress recipientAddress =
                Inr destinationTokenAccount"
    and sent: "SendAndConfirmTransaction tx ks \<in>
      set (fst (submitCollateralSignature env sender recipientAddress mintAddress
                  withdrawRequest (adminFundsNonce collateralAccount) collateral))"
    and failed: "sendAndConfirmTransaction env tx ks = Inl reason"
  shows "snd (submitCollateralSignature env sender recipientAddress mintAddress
                withdrawRequest (adminFundsNonce collateralAccount) collateral) =
           Inl (RpcFailure reason) \<and>
         executeWithdrawal env collateral depositAddress sender recipientAddress mintAddress
           expiration amountInCents signatureSalt signatureData =
           ([FetchCollateral collateral,
             GetOrCreateAssociatedTokenAccount sender mintAddress recipientAddress] @
            fst (submitCollateralSignature env sender recipientAddress mintAddress
                   withdrawRequest (adminFundsNonce collateralAccount) collateral),
            Inl (RpcFailure reason))"
proof -
  let ?S = "submitCollateralSignature env sender recipientAddress mintAddress
              withdrawRequest (adminFundsNonce collateralAccount) collateral"
  have s: "snd ?S = Inl (RpcFailure reason)"
    using sent failed by (rule submitCollateralSignature_send_failure)
  then have "?S = (fst ?S, Inl (RpcFailure reason))"
    by (cases ?S) simp
  from executeWithdrawal_submit_fails[OF bn req ca ata this] s show ?thesis by simp
qed

theorem executeWithdrawal_approval_failure_surfaced_witness:
  "executeWithdrawal
     (env0\<lparr>sendAndConfirmTransaction := (\<lambda>tx ks. Inl ''blockhash not found'')\<rparr>)
     4 10 sender0 2 3 1763066371 1000000 (replicate 32 0) (replicate 64 0) =
   ([FetchCollateral 4, GetOrCreateAssociatedTokenAccount sender0 3 2] @
    fst (submitCollateralSignature
           (env0\<lparr>sendAndConfirmTransaction := (\<lambda>tx ks. Inl ''blockhash not found'')\<rparr>)
           sender0 2 3 request0 0 4),
    Inl (RpcFailure ''blockhash not found''))"
proof -
  let ?env = "env0\<lparr>sendAndConfirmTransaction := (\<lambda>tx ks. Inl ''blockhash not found'')\<rparr>"
  let ?ca = "\<lparr>adminFundsNonce = 0, coordinator = 3\<rparr>"
  have req: "request0 = \<lparr>amountOfAsset = 1000000, signatureExpirationTime = 1763066371,
                coordinatorSignatureSalt = map unat (replicate 32 (0::byte))\<rparr>"
    by (simp add: request0_def)
  have ca: "fetchCollateral ?env 4 = Inr ?ca" by (simp add: env0_def)
  have ata: "getOrCreateAssociatedTokenAccount ?env sender0 3 2 = Inr 5" by (simp add: env0_def)
  from submitCollateralSignature_env0_send_fails[of "''blockhash not found''"]
  obtain tx where sub: "submitCollateralSignature ?env sender0 2 3 request0 0 4 =
      ([FetchNullableCollateralAdminSignatures 9, SendAndConfirmTransaction tx [sender0]],
       Inl (RpcFailure ''blockhash not found''))"
    by blast
  have sent: "SendAndConfirmTransaction tx [sender0] \<in>
      set (fst (submitCollateralSignature ?env sender0 2 3 request0 (adminFundsNonce ?ca) 4))"
    by (simp add: sub)
  have failed: "sendAndConfirmTransaction ?env tx [sender0] = Inl ''blockhash not found''"
    by simp
  have bn: "(1763066371::nat) < 2 ^ 53" "(1000000::nat) < 2 ^ 53" by simp_all
  from executeWithdrawal_approval_failure_surfaced[OF bn req ca ata sent failed,
      of 10 "replicate 64 0"]
  show ?thesis by simp
qed

text \<open>
  When the approval submission fails because the approval already exists,
  \<open>executeWithdrawal\<close> fails with that reason after four calls, the last being the failed
  submission; the coordinator account is never fetched.
\<close>

theorem executeWithdrawal_duplicate_counterexample:
  "snd (executeWithdrawal
          (env0\<lparr>sendAndConfirmTransaction := (\<lambda>tx ks. Inl ''DuplicateApproval'')\<rparr>)
          4 10 sender0 2 3 1763066371 1000000 (replicate 32 0) (replicate 64 0)) =
     Inl (RpcFailure ''DuplicateApproval'') \<and>
   length (fst (executeWithdrawal
          (env0\<lparr>sendAndConfirmTransaction := (\<lambda>tx ks. Inl ''DuplicateApproval'')\<rparr>)
          4 10 sender0 2 3 1763066371 1000000 (replicate 32 0) (replicate 64 0))) = 4 \<and>
   FetchCoordinator 3 \<notin> set (fst (executeWithdrawal
          (env0\<lparr>sendAndConfirmTransaction := (\<lambda>tx ks. Inl ''DuplicateApproval'')\<rparr>)
          4 10 sender0 2 3 1763066371 1000000 (replicate 32 0) (replicate 64 0)))"
proof -
  let ?env = "env0\<lparr>sendAndConfirmTransaction := (\<lambda>tx ks. Inl ''DuplicateApproval'')\<rparr>"
  let ?ca = "\<lparr>adminFundsNonce = 0, coordinator = 3\<rparr>"
  have req: "request0 = \<lparr>amountOfAsset = 1000000, signatureExpirationTime = 1763066371,
                coordinatorSignatureSalt = map unat (replicate 32 (0::byte))\<rparr>"
    by (simp add: request0_def)
  have ca: "fetchCollateral ?env 4 = Inr ?ca" by (simp add: env0_def)
  have ata: "getOrCreateAssociatedTokenAccount ?env sender0 3 2 = Inr 5" by (simp add: env0_def)
  from submitCollateralSignature_env0_send_fails[of "''DuplicateApproval''"]
  obtain tx where "submitCollateralSignature ?env sender0 2 3 request0 0 4 =
      ([FetchNullableCollateralAdminSignatures 9, SendAndConfirmTransaction tx [sender0]],
       Inl (RpcFailure ''DuplicateApproval''))"
    by blast
  then have sub: "submitCollateralSignature ?env sender0 2 3 request0 (adminFundsNonce ?ca) 4 =
      ([FetchNullableCollateralAdminSignatures 9, SendAndConfirmTransaction tx [sender0]],
       Inl (RpcFailure ''DuplicateApproval''))"
    by simp
  have bn: "(1763066371::nat) < 2 ^ 53" "(1000000::nat) < 2 ^ 53" by simp_all
  from executeWithdrawal_submit_fails[OF bn req ca ata sub, of 10 "replicate 64 0"]
  show ?thesis by simp
qed

section \<open>Separation of the two message kinds\<close>

text \<open>
  What the code fixes about the two kinds: their type strings differ, and the encoded
  structure hashed for the coordinator kind is longer than the one hashed for the custody
  kind, by the digits of the expiry.  Whether the digests differ is then a matter of the
  digest primitive alone.
\<close>

lemma withdraw_type_strings_differ: "COLLATERAL_WITHDRAW_TYPE \<noteq> COORDINATOR_WITHDRAW_TYPE"
  by (simp add: COLLATERAL_WITHDRAW_TYPE_def COORDINATOR_WITHDRAW_TYPE_def)

lemma length_encodeUInt64_ge: "16 \<le> length (encodeUInt64 v)"
  by (simp add: length_encodeUInt64)

lemma withdraw_structures_differ:
  "concat [Collateral_WITHDRAW_TYPE_HASH K, encodeAddress sender, encodeAddress collateral,
           encodeAddress asset, encodeUInt64 amount, encodeAddress receiver,
           encodeUInt32 nonce] \<noteq>
   concat [Coordinator_WITHDRAW_TYPE_HASH K, encodeAddress sender, encodeAddress collateral,
           encodeAddress asset, encodeUInt64 amount, encodeAddress receiver,
           encodeUInt32 nonce, encodeUInt64 expiresAt]"
proof
  assume "concat [Collateral_WITHDRAW_TYPE_HASH K, encodeAddress sender, encodeAddress collateral,
           encodeAddress asset, encodeUInt64 amount, encodeAddress receiver,
           encodeUInt32 nonce] =
   concat [Coordinator_WITHDRAW_TYPE_HASH K, encodeAddress sender, encodeAddress collateral,
           encodeAddress asset, encodeUInt64 amount, encodeAddress receiver,
           encodeUInt32 nonce, encodeUInt64 expiresAt]"
  then have "length (concat [Collateral_WITHDRAW_TYPE_HASH K, encodeAddress sender,
           encodeAddress collateral, encodeAddress asset, encodeUInt64 amount,
           encodeAddress receiver, encodeUInt32 nonce]) =
   length (concat [Coordinator_WITHDRAW_TYPE_HASH K, encodeAddress sender, encodeAddress collateral,
           encodeAddress asset, encodeUInt64 amount, encodeAddress receiver,
           encodeUInt32 nonce, encodeUInt64 expiresAt])"
    by (rule arg_cong)
  then show False
    using length_encodeUInt64_ge[of expiresAt]
    by (simp add: Collateral_WITHDRAW_TYPE_HASH_def Coordinator_WITHDRAW_TYPE_HASH_def
        encodeString_def keccak256_def length_Hex_stringify length_digest_bytes)
qed

end
